theory Spec2Isabelle
  imports Complex_Main "HOL-Library.List_Lexorder" "HOL-Library.Char_ord"
begin

section \<open>Python values and exceptions\<close>

text \<open>
  The module \<^verbatim>\<open>apps/backend/runners/github/models.py\<close> moves plain Python values between
  dataclasses, dictionaries and JSON files. Python checks no type annotation at run time, so a
  field of a dataclass holds whatever value the caller or \<^verbatim>\<open>from_dict\<close> put there. The
  values are modelled by one datatype: \<^verbatim>\<open>None\<close>, booleans, unbounded integers, floats,
  strings, lists and dictionaries with string keys (what \<^verbatim>\<open>json.load\<close> produces). A
  dictionary is an association list in insertion order, as Python keeps it. A float is
  represented by its exact value; NaN and the infinities are not represented.
\<close>

datatype pyval =
    PNone
  | PBool bool
  | PInt int
  | PFloat real
  | PStr string
  | PList "pyval list"
  | PDict "(string \<times> pyval) list"

text \<open>
  The exceptions the module can raise. \<open>ValueError v cls\<close> is the failure of the enum
  constructor \<^verbatim>\<open>cls(v)\<close> ("v is not a valid cls"); \<open>KeyError k\<close> is a failed
  subscript \<^verbatim>\<open>data[k]\<close>.
\<close>

datatype error =
    KeyError string
  | ValueError pyval string
  | TypeError
  | AttributeError
  | JSONDecodeError

definition bnd :: "error + 'a \<Rightarrow> ('a \<Rightarrow> error + 'b) \<Rightarrow> error + 'b" where
  "bnd m f = (case m of Inl e \<Rightarrow> Inl e | Inr v \<Rightarrow> f v)"

fun mapM :: "('a \<Rightarrow> error + 'b) \<Rightarrow> 'a list \<Rightarrow> error + 'b list" where
  "mapM f [] = Inr []"
| "mapM f (x # xs) = bnd (f x) (\<lambda>y. bnd (mapM f xs) (\<lambda>ys. Inr (y # ys)))"

text \<open>\<^verbatim>\<open>data[k]\<close> for a string key \<open>k\<close>: only a dictionary can be subscripted by a string.\<close>

fun py_getitem :: "pyval \<Rightarrow> string \<Rightarrow> error + pyval" where
  "py_getitem (PDict kvs) k = (case map_of kvs k of None \<Rightarrow> Inl (KeyError k) | Some v \<Rightarrow> Inr v)"
| "py_getitem _ k = Inl TypeError"

text \<open>\<^verbatim>\<open>data.get(k, default)\<close>: only a dictionary has the method.\<close>

fun py_get :: "pyval \<Rightarrow> string \<Rightarrow> pyval \<Rightarrow> error + pyval" where
  "py_get (PDict kvs) k dflt = Inr (case map_of kvs k of None \<Rightarrow> dflt | Some v \<Rightarrow> v)"
| "py_get _ k dflt = Inl AttributeError"

text \<open>\<^verbatim>\<open>d[k] = v\<close> on a dictionary: an existing key keeps its position, a new key goes last.\<close>

fun dict_set :: "(string \<times> pyval) list \<Rightarrow> string \<Rightarrow> pyval \<Rightarrow> (string \<times> pyval) list" where
  "dict_set [] k v = [(k, v)]"
| "dict_set ((k', v') # kvs) k v = (if k' = k then (k, v) # kvs else (k', v') # dict_set kvs k v)"

text \<open>\<^verbatim>\<open>d.pop(k, None)\<close> on a dictionary, for its effect on \<open>d\<close>.\<close>

definition dict_pop :: "(string \<times> pyval) list \<Rightarrow> string \<Rightarrow> (string \<times> pyval) list" where
  "dict_pop kvs k = filter (\<lambda>kv. fst kv \<noteq> k) kvs"

text \<open>
  Iteration (\<^verbatim>\<open>for r in x\<close>): a list yields its elements, a dictionary its keys, a string
  its characters; nothing else is iterable.
\<close>

fun py_iter :: "pyval \<Rightarrow> error + pyval list" where
  "py_iter (PList xs) = Inr xs"
| "py_iter (PDict kvs) = Inr (map (\<lambda>kv. PStr (fst kv)) kvs)"
| "py_iter (PStr s) = Inr (map (\<lambda>c. PStr [c]) s)"
| "py_iter _ = Inl TypeError"

text \<open>Truth value testing (\<^verbatim>\<open>if x:\<close>).\<close>

fun py_truthy :: "pyval \<Rightarrow> bool" where
  "py_truthy PNone = False"
| "py_truthy (PBool b) = b"
| "py_truthy (PInt i) = (i \<noteq> 0)"
| "py_truthy (PFloat r) = (r \<noteq> 0)"
| "py_truthy (PStr s) = (s \<noteq> [])"
| "py_truthy (PList xs) = (xs \<noteq> [])"
| "py_truthy (PDict kvs) = (kvs \<noteq> [])"

text \<open>
  Equality \<^verbatim>\<open>a == b\<close>. Booleans, integers and floats compare by numeric value
  (\<^verbatim>\<open>True == 1\<close>, \<^verbatim>\<open>1 == 1.0\<close>); lists compare element by element; dictionaries
  compare as mappings, whatever the order of their keys.
\<close>

fun py_num :: "pyval \<Rightarrow> real option" where
  "py_num (PBool b) = Some (if b then 1 else 0)"
| "py_num (PInt i) = Some (of_int i)"
| "py_num (PFloat r) = Some r"
| "py_num _ = None"

fun py_eq :: "pyval \<Rightarrow> pyval \<Rightarrow> bool" where
  "py_eq (PList xs) b = (case b of PList ys \<Rightarrow> list_all2 py_eq xs ys | _ \<Rightarrow> False)"
| "py_eq (PDict kvs) b =
     (case b of
        PDict kvs' \<Rightarrow>
          length kvs = length kvs' \<and>
          list_all (\<lambda>kv. case map_of kvs' (fst kv) of None \<Rightarrow> False | Some w \<Rightarrow> py_eq (snd kv) w) kvs
      | _ \<Rightarrow> False)"
| "py_eq (PStr s) b = (case b of PStr t \<Rightarrow> s = t | _ \<Rightarrow> False)"
| "py_eq PNone b = (b = PNone)"
| "py_eq a b = (case (py_num a, py_num b) of (Some x, Some y) \<Rightarrow> x = y | _ \<Rightarrow> False)"

section \<open>Enumerated vocabularies\<close>

datatype ReviewSeverity = CRITICAL | HIGH | MEDIUM | LOW

datatype ReviewCategory = SECURITY | QUALITY | STYLE | TEST | DOCS | PATTERN | PERFORMANCE

datatype TriageCategory = BUG | FEATURE | DOCUMENTATION | QUESTION | DUPLICATE | SPAM | FEATURE_CREEP

datatype AutoFixStatus =
  PENDING | ANALYZING | CREATING_SPEC | BUILDING | QA_REVIEW | PR_CREATED | COMPLETED | FAILED

text \<open>The \<^verbatim>\<open>.value\<close> of each member.\<close>

fun ReviewSeverity_value :: "ReviewSeverity \<Rightarrow> string" where
  "ReviewSeverity_value CRITICAL = ''critical''"
| "ReviewSeverity_value HIGH = ''high''"
| "ReviewSeverity_value MEDIUM = ''medium''"
| "ReviewSeverity_value LOW = ''low''"

fun ReviewCategory_value :: "ReviewCategory \<Rightarrow> string" where
  "ReviewCategory_value SECURITY = ''security''"
| "ReviewCategory_value QUALITY = ''quality''"
| "ReviewCategory_value STYLE = ''style''"
| "ReviewCategory_value TEST = ''test''"
| "ReviewCategory_value DOCS = ''docs''"
| "ReviewCategory_value PATTERN = ''pattern''"
| "ReviewCategory_value PERFORMANCE = ''performance''"

fun TriageCategory_value :: "TriageCategory \<Rightarrow> string" where
  "TriageCategory_value BUG = ''bug''"
| "TriageCategory_value FEATURE = ''feature''"
| "TriageCategory_value DOCUMENTATION = ''documentation''"
| "TriageCategory_value QUESTION = ''question''"
| "TriageCategory_value DUPLICATE = ''duplicate''"
| "TriageCategory_value SPAM = ''spam''"
| "TriageCategory_value FEATURE_CREEP = ''feature_creep''"

fun AutoFixStatus_value :: "AutoFixStatus \<Rightarrow> string" where
  "AutoFixStatus_value PENDING = ''pending''"
| "AutoFixStatus_value ANALYZING = ''analyzing''"
| "AutoFixStatus_value CREATING_SPEC = ''creating_spec''"
| "AutoFixStatus_value BUILDING = ''building''"
| "AutoFixStatus_value QA_REVIEW = ''qa_review''"
| "AutoFixStatus_value PR_CREATED = ''pr_created''"
| "AutoFixStatus_value COMPLETED = ''completed''"
| "AutoFixStatus_value FAILED = ''failed''"

text \<open>
  The enum constructor \<^verbatim>\<open>ReviewSeverity(v)\<close> looks the member up by value and raises
  \<^verbatim>\<open>ValueError\<close> ("v is not a valid ReviewSeverity") for every other value, a string or
  not. The exception carries the rejected value and the name of the enum class.
\<close>

definition ReviewSeverity_of :: "pyval \<Rightarrow> error + ReviewSeverity" where
  "ReviewSeverity_of v =
     (if v = PStr ''critical'' then Inr CRITICAL
      else if v = PStr ''high'' then Inr HIGH
      else if v = PStr ''medium'' then Inr MEDIUM
      else if v = PStr ''low'' then Inr LOW
      else Inl (ValueError v ''ReviewSeverity''))"

definition ReviewCategory_of :: "pyval \<Rightarrow> error + ReviewCategory" where
  "ReviewCategory_of v =
     (if v = PStr ''security'' then Inr SECURITY
      else if v = PStr ''quality'' then Inr QUALITY
      else if v = PStr ''style'' then Inr STYLE
      else if v = PStr ''test'' then Inr TEST
      else if v = PStr ''docs'' then Inr DOCS
      else if v = PStr ''pattern'' then Inr PATTERN
      else if v = PStr ''performance'' then Inr PERFORMANCE
      else Inl (ValueError v ''ReviewCategory''))"

definition TriageCategory_of :: "pyval \<Rightarrow> error + TriageCategory" where
  "TriageCategory_of v =
     (if v = PStr ''bug'' then Inr BUG
      else if v = PStr ''feature'' then Inr FEATURE
      else if v = PStr ''documentation'' then Inr DOCUMENTATION
      else if v = PStr ''question'' then Inr QUESTION
      else if v = PStr ''duplicate'' then Inr DUPLICATE
      else if v = PStr ''spam'' then Inr SPAM
      else if v = PStr ''feature_creep'' then Inr FEATURE_CREEP
      else Inl (ValueError v ''TriageCategory''))"

definition AutoFixStatus_of :: "pyval \<Rightarrow> error + AutoFixStatus" where
  "AutoFixStatus_of v =
     (if v = PStr ''pending'' then Inr PENDING
      else if v = PStr ''analyzing'' then Inr ANALYZING
      else if v = PStr ''creating_spec'' then Inr CREATING_SPEC
      else if v = PStr ''building'' then Inr BUILDING
      else if v = PStr ''qa_review'' then Inr QA_REVIEW
      else if v = PStr ''pr_created'' then Inr PR_CREATED
      else if v = PStr ''completed'' then Inr COMPLETED
      else if v = PStr ''failed'' then Inr FAILED
      else Inl (ValueError v ''AutoFixStatus''))"

section \<open>PRReviewFinding\<close>

text \<open>
  Declared types: \<^verbatim>\<open>id: str\<close>, \<^verbatim>\<open>title, description, file: str\<close>, \<^verbatim>\<open>line: int\<close>,
  \<^verbatim>\<open>end_line: int | None\<close>, \<^verbatim>\<open>suggested_fix: str | None\<close>, \<^verbatim>\<open>fixable: bool\<close>. The two
  enum fields are typed, since \<^verbatim>\<open>to_dict\<close> reads their \<^verbatim>\<open>.value\<close> and \<^verbatim>\<open>from_dict\<close>
  builds them with the enum constructor; every other field holds the value it was given.
  Field names carry a prefix per class (\<open>fnd_\<close>, \<open>rev_\<close>, \<open>tri_\<close>, \<open>afs_\<close>, \<open>cfg_\<close>).
\<close>

record PRReviewFinding =
  fnd_id :: pyval
  fnd_severity :: ReviewSeverity
  fnd_category :: ReviewCategory
  fnd_title :: pyval
  fnd_description :: pyval
  fnd_file :: pyval
  fnd_line :: pyval
  fnd_end_line :: pyval
  fnd_suggested_fix :: pyval
  fnd_fixable :: pyval

definition PRReviewFinding_to_dict :: "PRReviewFinding \<Rightarrow> pyval" where
  "PRReviewFinding_to_dict self = PDict
     [(''id'', fnd_id self),
      (''severity'', PStr (ReviewSeverity_value (fnd_severity self))),
      (''category'', PStr (ReviewCategory_value (fnd_category self))),
      (''title'', fnd_title self),
      (''description'', fnd_description self),
      (''file'', fnd_file self),
      (''line'', fnd_line self),
      (''end_line'', fnd_end_line self),
      (''suggested_fix'', fnd_suggested_fix self),
      (''fixable'', fnd_fixable self)]"

text \<open>The arguments of the constructor call are evaluated in the order they are written.\<close>

definition PRReviewFinding_from_dict :: "pyval \<Rightarrow> error + PRReviewFinding" where
  "PRReviewFinding_from_dict data =
     bnd (py_getitem data ''id'') (\<lambda>v_id.
     bnd (bnd (py_getitem data ''severity'') ReviewSeverity_of) (\<lambda>v_severity.
     bnd (bnd (py_getitem data ''category'') ReviewCategory_of) (\<lambda>v_category.
     bnd (py_getitem data ''title'') (\<lambda>v_title.
     bnd (py_getitem data ''description'') (\<lambda>v_description.
     bnd (py_getitem data ''file'') (\<lambda>v_file.
     bnd (py_getitem data ''line'') (\<lambda>v_line.
     bnd (py_get data ''end_line'' PNone) (\<lambda>v_end_line.
     bnd (py_get data ''suggested_fix'' PNone) (\<lambda>v_suggested_fix.
     bnd (py_get data ''fixable'' (PBool False)) (\<lambda>v_fixable.
     Inr \<lparr>fnd_id = v_id, fnd_severity = v_severity, fnd_category = v_category,
          fnd_title = v_title, fnd_description = v_description, fnd_file = v_file,
          fnd_line = v_line, fnd_end_line = v_end_line,
          fnd_suggested_fix = v_suggested_fix, fnd_fixable = v_fixable\<rparr>))))))))))"

section \<open>PRReviewResult\<close>

text \<open>
  Declared types: \<^verbatim>\<open>pr_number: int\<close>, \<^verbatim>\<open>repo: str\<close>, \<^verbatim>\<open>success: bool\<close>,
  \<^verbatim>\<open>findings: list[PRReviewFinding]\<close>, \<^verbatim>\<open>summary, overall_status: str\<close>,
  \<^verbatim>\<open>review_id: int | None\<close>, \<^verbatim>\<open>reviewed_at: str\<close>, \<^verbatim>\<open>error: str | None\<close>.
  \<^verbatim>\<open>datetime.now().isoformat()\<close> is a reading of the clock, passed in as \<open>now\<close>.
\<close>

record PRReviewResult =
  rev_pr_number :: pyval
  rev_repo :: pyval
  rev_success :: pyval
  rev_findings :: "PRReviewFinding list"
  rev_summary :: pyval
  rev_overall_status :: pyval
  rev_review_id :: pyval
  rev_reviewed_at :: pyval
  rev_error :: pyval

definition PRReviewResult_to_dict :: "PRReviewResult \<Rightarrow> pyval" where
  "PRReviewResult_to_dict self = PDict
     [(''pr_number'', rev_pr_number self),
      (''repo'', rev_repo self),
      (''success'', rev_success self),
      (''findings'', PList (map PRReviewFinding_to_dict (rev_findings self))),
      (''summary'', rev_summary self),
      (''overall_status'', rev_overall_status self),
      (''review_id'', rev_review_id self),
      (''reviewed_at'', rev_reviewed_at self),
      (''error'', rev_error self)]"

definition PRReviewResult_from_dict :: "string \<Rightarrow> pyval \<Rightarrow> error + PRReviewResult" where
  "PRReviewResult_from_dict now data =
     bnd (py_getitem data ''pr_number'') (\<lambda>v_pr_number.
     bnd (py_getitem data ''repo'') (\<lambda>v_repo.
     bnd (py_getitem data ''success'') (\<lambda>v_success.
     bnd (bnd (bnd (py_get data ''findings'' (PList [])) py_iter)
              (mapM PRReviewFinding_from_dict)) (\<lambda>v_findings.
     bnd (py_get data ''summary'' (PStr [])) (\<lambda>v_summary.
     bnd (py_get data ''overall_status'' (PStr ''comment'')) (\<lambda>v_overall_status.
     bnd (py_get data ''review_id'' PNone) (\<lambda>v_review_id.
     bnd (py_get data ''reviewed_at'' (PStr now)) (\<lambda>v_reviewed_at.
     bnd (py_get data ''error'' PNone) (\<lambda>v_error.
     Inr \<lparr>rev_pr_number = v_pr_number, rev_repo = v_repo, rev_success = v_success,
          rev_findings = v_findings, rev_summary = v_summary,
          rev_overall_status = v_overall_status, rev_review_id = v_review_id,
          rev_reviewed_at = v_reviewed_at, rev_error = v_error\<rparr>)))))))))"

section \<open>TriageResult\<close>

text \<open>
  Declared types: \<^verbatim>\<open>issue_number: int\<close>, \<^verbatim>\<open>repo: str\<close>, \<^verbatim>\<open>confidence: float\<close>,
  \<^verbatim>\<open>labels_to_add, labels_to_remove, suggested_breakdown: list[str]\<close>,
  \<^verbatim>\<open>is_duplicate, is_spam, is_feature_creep: bool\<close>, \<^verbatim>\<open>duplicate_of: int | None\<close>,
  \<^verbatim>\<open>priority: str\<close>, \<^verbatim>\<open>comment: str | None\<close>, \<^verbatim>\<open>triaged_at: str\<close>.
\<close>

record TriageResult =
  tri_issue_number :: pyval
  tri_repo :: pyval
  tri_category :: TriageCategory
  tri_confidence :: pyval
  tri_labels_to_add :: pyval
  tri_labels_to_remove :: pyval
  tri_is_duplicate :: pyval
  tri_duplicate_of :: pyval
  tri_is_spam :: pyval
  tri_is_feature_creep :: pyval
  tri_suggested_breakdown :: pyval
  tri_priority :: pyval
  tri_comment :: pyval
  tri_triaged_at :: pyval

definition TriageResult_to_dict :: "TriageResult \<Rightarrow> pyval" where
  "TriageResult_to_dict self = PDict
     [(''issue_number'', tri_issue_number self),
      (''repo'', tri_repo self),
      (''category'', PStr (TriageCategory_value (tri_category self))),
      (''confidence'', tri_confidence self),
      (''labels_to_add'', tri_labels_to_add self),
      (''labels_to_remove'', tri_labels_to_remove self),
      (''is_duplicate'', tri_is_duplicate self),
      (''duplicate_of'', tri_duplicate_of self),
      (''is_spam'', tri_is_spam self),
      (''is_feature_creep'', tri_is_feature_creep self),
      (''suggested_breakdown'', tri_suggested_breakdown self),
      (''priority'', tri_priority self),
      (''comment'', tri_comment self),
      (''triaged_at'', tri_triaged_at self)]"

definition TriageResult_from_dict :: "string \<Rightarrow> pyval \<Rightarrow> error + TriageResult" where
  "TriageResult_from_dict now data =
     bnd (py_getitem data ''issue_number'') (\<lambda>v_issue_number.
     bnd (py_getitem data ''repo'') (\<lambda>v_repo.
     bnd (bnd (py_getitem data ''category'') TriageCategory_of) (\<lambda>v_category.
     bnd (py_getitem data ''confidence'') (\<lambda>v_confidence.
     bnd (py_get data ''labels_to_add'' (PList [])) (\<lambda>v_labels_to_add.
     bnd (py_get data ''labels_to_remove'' (PList [])) (\<lambda>v_labels_to_remove.
     bnd (py_get data ''is_duplicate'' (PBool False)) (\<lambda>v_is_duplicate.
     bnd (py_get data ''duplicate_of'' PNone) (\<lambda>v_duplicate_of.
     bnd (py_get data ''is_spam'' (PBool False)) (\<lambda>v_is_spam.
     bnd (py_get data ''is_feature_creep'' (PBool False)) (\<lambda>v_is_feature_creep.
     bnd (py_get data ''suggested_breakdown'' (PList [])) (\<lambda>v_suggested_breakdown.
     bnd (py_get data ''priority'' (PStr ''medium'')) (\<lambda>v_priority.
     bnd (py_get data ''comment'' PNone) (\<lambda>v_comment.
     bnd (py_get data ''triaged_at'' (PStr now)) (\<lambda>v_triaged_at.
     Inr \<lparr>tri_issue_number = v_issue_number, tri_repo = v_repo, tri_category = v_category,
          tri_confidence = v_confidence, tri_labels_to_add = v_labels_to_add,
          tri_labels_to_remove = v_labels_to_remove, tri_is_duplicate = v_is_duplicate,
          tri_duplicate_of = v_duplicate_of, tri_is_spam = v_is_spam,
          tri_is_feature_creep = v_is_feature_creep,
          tri_suggested_breakdown = v_suggested_breakdown, tri_priority = v_priority,
          tri_comment = v_comment, tri_triaged_at = v_triaged_at\<rparr>))))))))))))))"

section \<open>AutoFixState\<close>

text \<open>
  Declared types: \<^verbatim>\<open>issue_number: int\<close>, \<^verbatim>\<open>issue_url, repo: str\<close>,
  \<^verbatim>\<open>spec_id, spec_dir, pr_url, error: str | None\<close>, \<^verbatim>\<open>pr_number: int | None\<close>,
  \<^verbatim>\<open>bot_comments: list[str]\<close>, \<^verbatim>\<open>created_at, updated_at: str\<close>. \<^verbatim>\<open>from_dict\<close>
  reads the clock twice, once for each timestamp default.
\<close>

record AutoFixState =
  afs_issue_number :: pyval
  afs_issue_url :: pyval
  afs_repo :: pyval
  afs_status :: AutoFixStatus
  afs_spec_id :: pyval
  afs_spec_dir :: pyval
  afs_pr_number :: pyval
  afs_pr_url :: pyval
  afs_bot_comments :: pyval
  afs_error :: pyval
  afs_created_at :: pyval
  afs_updated_at :: pyval

definition AutoFixState_to_dict :: "AutoFixState \<Rightarrow> pyval" where
  "AutoFixState_to_dict self = PDict
     [(''issue_number'', afs_issue_number self),
      (''issue_url'', afs_issue_url self),
      (''repo'', afs_repo self),
      (''status'', PStr (AutoFixStatus_value (afs_status self))),
      (''spec_id'', afs_spec_id self),
      (''spec_dir'', afs_spec_dir self),
      (''pr_number'', afs_pr_number self),
      (''pr_url'', afs_pr_url self),
      (''bot_comments'', afs_bot_comments self),
      (''error'', afs_error self),
      (''created_at'', afs_created_at self),
      (''updated_at'', afs_updated_at self)]"

definition AutoFixState_from_dict :: "string \<Rightarrow> string \<Rightarrow> pyval \<Rightarrow> error + AutoFixState" where
  "AutoFixState_from_dict now1 now2 data =
     bnd (py_getitem data ''issue_number'') (\<lambda>v_issue_number.
     bnd (py_getitem data ''issue_url'') (\<lambda>v_issue_url.
     bnd (py_getitem data ''repo'') (\<lambda>v_repo.
     bnd (bnd (py_get data ''status'' (PStr ''pending'')) AutoFixStatus_of) (\<lambda>v_status.
     bnd (py_get data ''spec_id'' PNone) (\<lambda>v_spec_id.
     bnd (py_get data ''spec_dir'' PNone) (\<lambda>v_spec_dir.
     bnd (py_get data ''pr_number'' PNone) (\<lambda>v_pr_number.
     bnd (py_get data ''pr_url'' PNone) (\<lambda>v_pr_url.
     bnd (py_get data ''bot_comments'' (PList [])) (\<lambda>v_bot_comments.
     bnd (py_get data ''error'' PNone) (\<lambda>v_error.
     bnd (py_get data ''created_at'' (PStr now1)) (\<lambda>v_created_at.
     bnd (py_get data ''updated_at'' (PStr now2)) (\<lambda>v_updated_at.
     Inr \<lparr>afs_issue_number = v_issue_number, afs_issue_url = v_issue_url, afs_repo = v_repo,
          afs_status = v_status, afs_spec_id = v_spec_id, afs_spec_dir = v_spec_dir,
          afs_pr_number = v_pr_number, afs_pr_url = v_pr_url,
          afs_bot_comments = v_bot_comments, afs_error = v_error,
          afs_created_at = v_created_at, afs_updated_at = v_updated_at\<rparr>))))))))))))"

text \<open>\<^verbatim>\<open>update_status\<close> mutates \<open>self\<close>; the model returns the new state.\<close>

definition update_status :: "string \<Rightarrow> AutoFixStatus \<Rightarrow> AutoFixState \<Rightarrow> AutoFixState" where
  "update_status now status self = self\<lparr>afs_status := status, afs_updated_at := PStr now\<rparr>"

section \<open>Files\<close>

text \<open>
  A path is its list of components (\<^verbatim>\<open>github_dir / "pr" / "index.json"\<close>). A file holds
  either a JSON document, which \<^verbatim>\<open>json.load\<close> returns as the value \<^verbatim>\<open>json.dump\<close> was
  given, or text that is not JSON, on which \<^verbatim>\<open>json.load\<close> raises. The file system maps
  the paths that exist to their content; \<^verbatim>\<open>mkdir(parents=True, exist_ok=True)\<close> changes
  no file, and failures of the operating system (permissions, disk space) are not modelled.
\<close>

type_synonym path = "string list"

datatype file_content = Json pyval | Malformed

type_synonym filesystem = "path \<Rightarrow> file_content option"

fun json_load :: "file_content \<Rightarrow> error + pyval" where
  "json_load (Json v) = Inr v"
| "json_load Malformed = Inl JSONDecodeError"

text \<open>
  The file names are f-strings over the identifier. String formatting belongs to the
  interpreter, so the functions below take it as the parameter \<open>fmt\<close>;
  \<open>format_int\<close> is what it does on integers, the declared type of every identifier.
\<close>

fun digits :: "nat \<Rightarrow> string" where
  "digits n = (if n < 10 then [''0123456789'' ! n] else digits (n div 10) @ [''0123456789'' ! (n mod 10)])"

fun format_int :: "pyval \<Rightarrow> string" where
  "format_int (PInt i) = (if i < 0 then CHR ''-'' # digits (nat (- i)) else digits (nat i))"

definition review_file :: "(pyval \<Rightarrow> string) \<Rightarrow> path \<Rightarrow> pyval \<Rightarrow> path" where
  "review_file fmt github_dir pr_number = github_dir @ [''pr'', ''review_'' @ fmt pr_number @ ''.json'']"

definition triage_file :: "(pyval \<Rightarrow> string) \<Rightarrow> path \<Rightarrow> pyval \<Rightarrow> path" where
  "triage_file fmt github_dir issue_number =
     github_dir @ [''issues'', ''triage_'' @ fmt issue_number @ ''.json'']"

definition autofix_file :: "(pyval \<Rightarrow> string) \<Rightarrow> path \<Rightarrow> pyval \<Rightarrow> path" where
  "autofix_file fmt github_dir issue_number =
     github_dir @ [''issues'', ''autofix_'' @ fmt issue_number @ ''.json'']"

definition pr_index_file :: "path \<Rightarrow> path" where
  "pr_index_file github_dir = github_dir @ [''pr'', ''index.json'']"

definition issues_index_file :: "path \<Rightarrow> path" where
  "issues_index_file github_dir = github_dir @ [''issues'', ''index.json'']"

definition config_file :: "path \<Rightarrow> path" where
  "config_file github_dir = github_dir @ [''config.json'']"

section \<open>Index maintenance\<close>

text \<open>
  Both \<^verbatim>\<open>_update_index\<close> methods run the same three steps over the entry list, with the
  key \<^verbatim>\<open>"pr_number"\<close> or \<^verbatim>\<open>"issue_number"\<close>.

  \<^verbatim>\<open>next((r for r in reviews if r[key] == ident), None)\<close>: the first entry whose identifier
  equals \<open>ident\<close>, or \<^verbatim>\<open>None\<close>; subscripting an entry before the match may raise.
\<close>

fun find_existing :: "string \<Rightarrow> pyval \<Rightarrow> pyval list \<Rightarrow> error + pyval" where
  "find_existing key ident [] = Inr PNone"
| "find_existing key ident (r # rs) =
     bnd (py_getitem r key) (\<lambda>v. if py_eq v ident then Inr r else find_existing key ident rs)"

text \<open>\<^verbatim>\<open>[entry if r[key] == ident else r for r in reviews]\<close>\<close>

definition replace_matching :: "string \<Rightarrow> pyval \<Rightarrow> pyval \<Rightarrow> pyval list \<Rightarrow> error + pyval list" where
  "replace_matching key ident entry rs =
     mapM (\<lambda>r. bnd (py_getitem r key) (\<lambda>v. Inr (if py_eq v ident then entry else r))) rs"

text \<open>\<^verbatim>\<open>reviews.append(entry)\<close>: only a list has the method.\<close>

fun py_append :: "pyval \<Rightarrow> pyval \<Rightarrow> error + pyval" where
  "py_append (PList xs) e = Inr (PList (xs @ [e]))"
| "py_append _ e = Inl AttributeError"

text \<open>\<^verbatim>\<open>index[k] = v\<close>\<close>

fun py_setitem :: "pyval \<Rightarrow> string \<Rightarrow> pyval \<Rightarrow> error + pyval" where
  "py_setitem (PDict kvs) k v = Inr (PDict (dict_set kvs k v))"
| "py_setitem _ k v = Inl TypeError"

text \<open>
  The scan, then the replacement or the append, on the value found under the list key:
  \<open>upsert key ident entry reviews\<close> is the new value of \<^verbatim>\<open>reviews\<close>.
\<close>

definition upsert :: "string \<Rightarrow> pyval \<Rightarrow> pyval \<Rightarrow> pyval \<Rightarrow> error + pyval" where
  "upsert key ident entry reviews =
     bnd (py_iter reviews) (\<lambda>rs.
     bnd (find_existing key ident rs) (\<lambda>existing.
     if py_truthy existing
     then bnd (replace_matching key ident entry rs) (\<lambda>rs'. Inr (PList rs'))
     else py_append reviews entry))"

text \<open>
  An operation on files returns the exception it raised, if any, and the file system it
  leaves behind.
\<close>

definition PRReviewResult_index_entry :: "PRReviewResult \<Rightarrow> pyval" where
  "PRReviewResult_index_entry self = PDict
     [(''pr_number'', rev_pr_number self),
      (''repo'', rev_repo self),
      (''overall_status'', rev_overall_status self),
      (''findings_count'', PInt (int (length (rev_findings self)))),
      (''reviewed_at'', rev_reviewed_at self)]"

definition PRReviewResult_new_index :: "string \<Rightarrow> PRReviewResult \<Rightarrow> pyval \<Rightarrow> error + pyval" where
  "PRReviewResult_new_index now self index =
     bnd (py_get index ''reviews'' (PList [])) (\<lambda>reviews.
     bnd (upsert ''pr_number'' (rev_pr_number self) (PRReviewResult_index_entry self) reviews) (\<lambda>reviews'.
     bnd (py_setitem index ''reviews'' reviews') (\<lambda>index1.
     py_setitem index1 ''last_updated'' (PStr now))))"

definition PRReviewResult_update_index ::
  "string \<Rightarrow> PRReviewResult \<Rightarrow> path \<Rightarrow> filesystem \<Rightarrow> error option \<times> filesystem" where
  "PRReviewResult_update_index now self pr_dir fs =
     (case bnd (case fs (pr_dir @ [''index.json'']) of
                  Some c \<Rightarrow> json_load c
                | None \<Rightarrow> Inr (PDict [(''reviews'', PList []), (''last_updated'', PNone)]))
               (PRReviewResult_new_index now self) of
        Inl e \<Rightarrow> (Some e, fs)
      | Inr index \<Rightarrow> (None, fs(pr_dir @ [''index.json''] \<mapsto> Json index)))"

definition PRReviewResult_save ::
  "(pyval \<Rightarrow> string) \<Rightarrow> string \<Rightarrow> PRReviewResult \<Rightarrow> path \<Rightarrow> filesystem \<Rightarrow> error option \<times> filesystem" where
  "PRReviewResult_save fmt now self github_dir fs =
     PRReviewResult_update_index now self (github_dir @ [''pr''])
       (fs(review_file fmt github_dir (rev_pr_number self) \<mapsto> Json (PRReviewResult_to_dict self)))"

definition PRReviewResult_load ::
  "(pyval \<Rightarrow> string) \<Rightarrow> string \<Rightarrow> path \<Rightarrow> pyval \<Rightarrow> filesystem \<Rightarrow> error + PRReviewResult option" where
  "PRReviewResult_load fmt now github_dir pr_number fs =
     (case fs (review_file fmt github_dir pr_number) of
        None \<Rightarrow> Inr None
      | Some c \<Rightarrow> bnd (bnd (json_load c) (PRReviewResult_from_dict now)) (\<lambda>r. Inr (Some r)))"

definition TriageResult_save ::
  "(pyval \<Rightarrow> string) \<Rightarrow> TriageResult \<Rightarrow> path \<Rightarrow> filesystem \<Rightarrow> error option \<times> filesystem" where
  "TriageResult_save fmt self github_dir fs =
     (None, fs(triage_file fmt github_dir (tri_issue_number self) \<mapsto> Json (TriageResult_to_dict self)))"

definition TriageResult_load ::
  "(pyval \<Rightarrow> string) \<Rightarrow> string \<Rightarrow> path \<Rightarrow> pyval \<Rightarrow> filesystem \<Rightarrow> error + TriageResult option" where
  "TriageResult_load fmt now github_dir issue_number fs =
     (case fs (triage_file fmt github_dir issue_number) of
        None \<Rightarrow> Inr None
      | Some c \<Rightarrow> bnd (bnd (json_load c) (TriageResult_from_dict now)) (\<lambda>r. Inr (Some r)))"

definition AutoFixState_index_entry :: "AutoFixState \<Rightarrow> pyval" where
  "AutoFixState_index_entry self = PDict
     [(''issue_number'', afs_issue_number self),
      (''repo'', afs_repo self),
      (''status'', PStr (AutoFixStatus_value (afs_status self))),
      (''spec_id'', afs_spec_id self),
      (''pr_number'', afs_pr_number self),
      (''updated_at'', afs_updated_at self)]"

definition AutoFixState_new_index :: "string \<Rightarrow> AutoFixState \<Rightarrow> pyval \<Rightarrow> error + pyval" where
  "AutoFixState_new_index now self index =
     bnd (py_get index ''auto_fix_queue'' (PList [])) (\<lambda>queue.
     bnd (upsert ''issue_number'' (afs_issue_number self) (AutoFixState_index_entry self) queue) (\<lambda>queue'.
     bnd (py_setitem index ''auto_fix_queue'' queue') (\<lambda>index1.
     py_setitem index1 ''last_updated'' (PStr now))))"

definition AutoFixState_update_index ::
  "string \<Rightarrow> AutoFixState \<Rightarrow> path \<Rightarrow> filesystem \<Rightarrow> error option \<times> filesystem" where
  "AutoFixState_update_index now self issues_dir fs =
     (case bnd (case fs (issues_dir @ [''index.json'']) of
                  Some c \<Rightarrow> json_load c
                | None \<Rightarrow> Inr (PDict [(''triaged'', PList []), (''auto_fix_queue'', PList []),
                                       (''last_updated'', PNone)]))
               (AutoFixState_new_index now self) of
        Inl e \<Rightarrow> (Some e, fs)
      | Inr index \<Rightarrow> (None, fs(issues_dir @ [''index.json''] \<mapsto> Json index)))"

definition AutoFixState_save ::
  "(pyval \<Rightarrow> string) \<Rightarrow> string \<Rightarrow> AutoFixState \<Rightarrow> path \<Rightarrow> filesystem \<Rightarrow> error option \<times> filesystem" where
  "AutoFixState_save fmt now self github_dir fs =
     AutoFixState_update_index now self (github_dir @ [''issues''])
       (fs(autofix_file fmt github_dir (afs_issue_number self) \<mapsto> Json (AutoFixState_to_dict self)))"

definition AutoFixState_load ::
  "(pyval \<Rightarrow> string) \<Rightarrow> string \<Rightarrow> string \<Rightarrow> path \<Rightarrow> pyval \<Rightarrow> filesystem
     \<Rightarrow> error + AutoFixState option" where
  "AutoFixState_load fmt now1 now2 github_dir issue_number fs =
     (case fs (autofix_file fmt github_dir issue_number) of
        None \<Rightarrow> Inr None
      | Some c \<Rightarrow> bnd (bnd (json_load c) (AutoFixState_from_dict now1 now2)) (\<lambda>r. Inr (Some r)))"

section \<open>GitHubRunnerConfig\<close>

text \<open>
  Declared types: \<^verbatim>\<open>token, repo: str\<close>, \<^verbatim>\<open>bot_token: str | None\<close>,
  \<^verbatim>\<open>auto_fix_labels: list[str]\<close>, the three thresholds \<^verbatim>\<open>float\<close>, \<^verbatim>\<open>model\<close> and
  \<^verbatim>\<open>thinking_level: str\<close>, every other field \<^verbatim>\<open>bool\<close>. The float literals
  \<^verbatim>\<open>0.80\<close>, \<^verbatim>\<open>0.75\<close> and \<^verbatim>\<open>0.70\<close> denote the doubles nearest to them.
\<close>

record GitHubRunnerConfig =
  cfg_token :: pyval
  cfg_repo :: pyval
  cfg_bot_token :: pyval
  cfg_auto_fix_enabled :: pyval
  cfg_auto_fix_labels :: pyval
  cfg_require_human_approval :: pyval
  cfg_triage_enabled :: pyval
  cfg_duplicate_threshold :: pyval
  cfg_spam_threshold :: pyval
  cfg_feature_creep_threshold :: pyval
  cfg_enable_triage_comments :: pyval
  cfg_pr_review_enabled :: pyval
  cfg_auto_post_reviews :: pyval
  cfg_allow_fix_commits :: pyval
  cfg_model :: pyval
  cfg_thinking_level :: pyval

definition float_0_80 :: pyval where
  "float_0_80 = PFloat (3602879701896397 / 4503599627370496)"

definition float_0_75 :: pyval where
  "float_0_75 = PFloat (3 / 4)"

definition float_0_70 :: pyval where
  "float_0_70 = PFloat (3152519739159347 / 4503599627370496)"

definition GitHubRunnerConfig_to_dict :: "GitHubRunnerConfig \<Rightarrow> pyval" where
  "GitHubRunnerConfig_to_dict self = PDict
     [(''token'', PStr ''***''),
      (''repo'', cfg_repo self),
      (''bot_token'', if py_truthy (cfg_bot_token self) then PStr ''***'' else PNone),
      (''auto_fix_enabled'', cfg_auto_fix_enabled self),
      (''auto_fix_labels'', cfg_auto_fix_labels self),
      (''require_human_approval'', cfg_require_human_approval self),
      (''triage_enabled'', cfg_triage_enabled self),
      (''duplicate_threshold'', cfg_duplicate_threshold self),
      (''spam_threshold'', cfg_spam_threshold self),
      (''feature_creep_threshold'', cfg_feature_creep_threshold self),
      (''enable_triage_comments'', cfg_enable_triage_comments self),
      (''pr_review_enabled'', cfg_pr_review_enabled self),
      (''auto_post_reviews'', cfg_auto_post_reviews self),
      (''allow_fix_commits'', cfg_allow_fix_commits self),
      (''model'', cfg_model self),
      (''thinking_level'', cfg_thinking_level self)]"

text \<open>
  \<^verbatim>\<open>settings = self.to_dict()\<close>, then the two \<^verbatim>\<open>pop\<close> calls: \<open>settings_written\<close> is the
  dictionary handed to \<^verbatim>\<open>json.dump\<close>.
\<close>

fun py_pop :: "pyval \<Rightarrow> string \<Rightarrow> pyval" where
  "py_pop (PDict kvs) k = PDict (dict_pop kvs k)"
| "py_pop v k = v"

definition settings_written :: "GitHubRunnerConfig \<Rightarrow> pyval" where
  "settings_written self = py_pop (py_pop (GitHubRunnerConfig_to_dict self) ''token'') ''bot_token''"

definition save_settings :: "GitHubRunnerConfig \<Rightarrow> path \<Rightarrow> filesystem \<Rightarrow> error option \<times> filesystem" where
  "save_settings self github_dir fs =
     (None, fs(config_file github_dir \<mapsto> Json (settings_written self)))"

definition load_settings ::
  "path \<Rightarrow> pyval \<Rightarrow> pyval \<Rightarrow> pyval \<Rightarrow> filesystem \<Rightarrow> error + GitHubRunnerConfig" where
  "load_settings github_dir token repo bot_token fs =
     bnd (case fs (config_file github_dir) of Some c \<Rightarrow> json_load c | None \<Rightarrow> Inr (PDict [])) (\<lambda>settings.
     bnd (py_get settings ''auto_fix_enabled'' (PBool False)) (\<lambda>v_auto_fix_enabled.
     bnd (py_get settings ''auto_fix_labels'' (PList [PStr ''auto-fix''])) (\<lambda>v_auto_fix_labels.
     bnd (py_get settings ''require_human_approval'' (PBool True)) (\<lambda>v_require_human_approval.
     bnd (py_get settings ''triage_enabled'' (PBool False)) (\<lambda>v_triage_enabled.
     bnd (py_get settings ''duplicate_threshold'' float_0_80) (\<lambda>v_duplicate_threshold.
     bnd (py_get settings ''spam_threshold'' float_0_75) (\<lambda>v_spam_threshold.
     bnd (py_get settings ''feature_creep_threshold'' float_0_70) (\<lambda>v_feature_creep_threshold.
     bnd (py_get settings ''enable_triage_comments'' (PBool False)) (\<lambda>v_enable_triage_comments.
     bnd (py_get settings ''pr_review_enabled'' (PBool False)) (\<lambda>v_pr_review_enabled.
     bnd (py_get settings ''auto_post_reviews'' (PBool False)) (\<lambda>v_auto_post_reviews.
     bnd (py_get settings ''allow_fix_commits'' (PBool True)) (\<lambda>v_allow_fix_commits.
     bnd (py_get settings ''model'' (PStr ''claude-sonnet-4-20250514'')) (\<lambda>v_model.
     bnd (py_get settings ''thinking_level'' (PStr ''medium'')) (\<lambda>v_thinking_level.
     Inr \<lparr>cfg_token = token, cfg_repo = repo, cfg_bot_token = bot_token,
          cfg_auto_fix_enabled = v_auto_fix_enabled,
          cfg_auto_fix_labels = v_auto_fix_labels,
          cfg_require_human_approval = v_require_human_approval,
          cfg_triage_enabled = v_triage_enabled,
          cfg_duplicate_threshold = v_duplicate_threshold,
          cfg_spam_threshold = v_spam_threshold,
          cfg_feature_creep_threshold = v_feature_creep_threshold,
          cfg_enable_triage_comments = v_enable_triage_comments,
          cfg_pr_review_enabled = v_pr_review_enabled,
          cfg_auto_post_reviews = v_auto_post_reviews,
          cfg_allow_fix_commits = v_allow_fix_commits,
          cfg_model = v_model, cfg_thinking_level = v_thinking_level\<rparr>))))))))))))))"

text \<open>The defaults of the dataclass, which are also the defaults of \<^verbatim>\<open>load_settings\<close>.\<close>

definition default_config :: "pyval \<Rightarrow> pyval \<Rightarrow> pyval \<Rightarrow> GitHubRunnerConfig" where
  "default_config token repo bot_token =
     \<lparr>cfg_token = token, cfg_repo = repo, cfg_bot_token = bot_token,
      cfg_auto_fix_enabled = PBool False,
      cfg_auto_fix_labels = PList [PStr ''auto-fix''],
      cfg_require_human_approval = PBool True,
      cfg_triage_enabled = PBool False,
      cfg_duplicate_threshold = float_0_80,
      cfg_spam_threshold = float_0_75,
      cfg_feature_creep_threshold = float_0_70,
      cfg_enable_triage_comments = PBool False,
      cfg_pr_review_enabled = PBool False,
      cfg_auto_post_reviews = PBool False,
      cfg_allow_fix_commits = PBool True,
      cfg_model = PStr ''claude-sonnet-4-20250514'',
      cfg_thinking_level = PStr ''medium''\<rparr>"

section \<open>Vocabulary of the properties\<close>

text \<open>
  The definitions of this section belong to the statements proved below, not to the module.

  An index entry is well formed for a key when it can be subscripted by it, and it matches an
  identifier when the value found there equals the identifier (Python's \<^verbatim>\<open>==\<close>).
\<close>

definition has_ident :: "string \<Rightarrow> pyval \<Rightarrow> bool" where
  "has_ident key r = (case py_getitem r key of Inr v \<Rightarrow> True | Inl e \<Rightarrow> False)"

definition entry_matches :: "string \<Rightarrow> pyval \<Rightarrow> pyval \<Rightarrow> bool" where
  "entry_matches key ident r = (case py_getitem r key of Inr v \<Rightarrow> py_eq v ident | Inl e \<Rightarrow> False)"

text \<open>The keys each \<^verbatim>\<open>from_dict\<close> subscripts (\<^verbatim>\<open>data[k]\<close>), in the order it reads them.\<close>

definition PRReviewFinding_required :: "string list" where
  "PRReviewFinding_required =
     [''id'', ''severity'', ''category'', ''title'', ''description'', ''file'', ''line'']"

definition PRReviewResult_required :: "string list" where
  "PRReviewResult_required = [''pr_number'', ''repo'', ''success'']"

definition TriageResult_required :: "string list" where
  "TriageResult_required = [''issue_number'', ''repo'', ''category'', ''confidence'']"

definition AutoFixState_required :: "string list" where
  "AutoFixState_required = [''issue_number'', ''issue_url'', ''repo'']"

definition first_missing :: "string list \<Rightarrow> (string \<times> pyval) list \<Rightarrow> string option" where
  "first_missing req d = find (\<lambda>k. map_of d k = None) req"

text \<open>The closed vocabularies, as the values of the members in declaration order.\<close>

definition ReviewSeverity_vocabulary :: "pyval list" where
  "ReviewSeverity_vocabulary = map (\<lambda>m. PStr (ReviewSeverity_value m)) [CRITICAL, HIGH, MEDIUM, LOW]"

definition ReviewCategory_vocabulary :: "pyval list" where
  "ReviewCategory_vocabulary =
     map (\<lambda>m. PStr (ReviewCategory_value m)) [SECURITY, QUALITY, STYLE, TEST, DOCS, PATTERN, PERFORMANCE]"

definition TriageCategory_vocabulary :: "pyval list" where
  "TriageCategory_vocabulary =
     map (\<lambda>m. PStr (TriageCategory_value m))
       [BUG, FEATURE, DOCUMENTATION, QUESTION, DUPLICATE, SPAM, FEATURE_CREEP]"

definition AutoFixStatus_vocabulary :: "pyval list" where
  "AutoFixStatus_vocabulary =
     map (\<lambda>m. PStr (AutoFixStatus_value m))
       [PENDING, ANALYZING, CREATING_SPEC, BUILDING, QA_REVIEW, PR_CREATED, COMPLETED, FAILED]"

text \<open>
  An enum field of a mapping is in order when the key is absent or its value belongs to the
  vocabulary.
\<close>

definition enum_field_ok :: "pyval list \<Rightarrow> (string \<times> pyval) list \<Rightarrow> string \<Rightarrow> bool" where
  "enum_field_ok vocabulary d k = (case map_of d k of None \<Rightarrow> True | Some v \<Rightarrow> v \<in> set vocabulary)"

text \<open>
  The order of two timestamps is the order of Python strings, character by character; values
  that are not both strings are not ordered here.
\<close>

fun timestamp_le :: "pyval \<Rightarrow> pyval \<Rightarrow> bool" where
  "timestamp_le (PStr a) (PStr b) = (a \<le> b)"
| "timestamp_le _ _ = False"

text \<open>
  The invariant the specification gives for a finding: an \<^verbatim>\<open>end_line\<close> that is present is
  at least \<^verbatim>\<open>line\<close>. \<open>line_range_ok line end_line\<close> states it for a pair of values, whether
  they are fields of a finding or entries of a mapping.
\<close>

fun line_range_ok :: "pyval \<Rightarrow> pyval \<Rightarrow> bool" where
  "line_range_ok line PNone = True"
| "line_range_ok (PInt l) (PInt e) = (l \<le> e)"
| "line_range_ok _ _ = False"

definition finding_invariant :: "PRReviewFinding \<Rightarrow> bool" where
  "finding_invariant f = line_range_ok (fnd_line f) (fnd_end_line f)"

text \<open>\<^verbatim>\<open>settings.get(k, default)\<close> on the dictionary read from \<^verbatim>\<open>config.json\<close>.\<close>

definition setting :: "(string \<times> pyval) list \<Rightarrow> string \<Rightarrow> pyval \<Rightarrow> pyval" where
  "setting kvs k dflt = (case map_of kvs k of None \<Rightarrow> dflt | Some v \<Rightarrow> v)"

text \<open>The configuration \<^verbatim>\<open>load_settings\<close> builds from the caller's secrets and a settings dictionary.\<close>

definition config_of_settings ::
  "pyval \<Rightarrow> pyval \<Rightarrow> pyval \<Rightarrow> (string \<times> pyval) list \<Rightarrow> GitHubRunnerConfig" where
  "config_of_settings token repo bot_token kvs =
     \<lparr>cfg_token = token, cfg_repo = repo, cfg_bot_token = bot_token,
      cfg_auto_fix_enabled = setting kvs ''auto_fix_enabled'' (PBool False),
      cfg_auto_fix_labels = setting kvs ''auto_fix_labels'' (PList [PStr ''auto-fix'']),
      cfg_require_human_approval = setting kvs ''require_human_approval'' (PBool True),
      cfg_triage_enabled = setting kvs ''triage_enabled'' (PBool False),
      cfg_duplicate_threshold = setting kvs ''duplicate_threshold'' float_0_80,
      cfg_spam_threshold = setting kvs ''spam_threshold'' float_0_75,
      cfg_feature_creep_threshold = setting kvs ''feature_creep_threshold'' float_0_70,
      cfg_enable_triage_comments = setting kvs ''enable_triage_comments'' (PBool False),
      cfg_pr_review_enabled = setting kvs ''pr_review_enabled'' (PBool False),
      cfg_auto_post_reviews = setting kvs ''auto_post_reviews'' (PBool False),
      cfg_allow_fix_commits = setting kvs ''allow_fix_commits'' (PBool True),
      cfg_model = setting kvs ''model'' (PStr ''claude-sonnet-4-20250514''),
      cfg_thinking_level = setting kvs ''thinking_level'' (PStr ''medium'')\<rparr>"

text \<open>Records used as concrete instances.\<close>

definition example_finding :: PRReviewFinding where
  "example_finding =
     \<lparr>fnd_id = PStr ''F1'', fnd_severity = HIGH, fnd_category = SECURITY,
      fnd_title = PStr ''Unchecked input'', fnd_description = PStr ''The handler trusts the header'',
      fnd_file = PStr ''app/main.py'', fnd_line = PInt 10, fnd_end_line = PNone,
      fnd_suggested_fix = PNone, fnd_fixable = PBool False\<rparr>"

definition example_review :: "int \<Rightarrow> string \<Rightarrow> PRReviewResult" where
  "example_review n status =
     \<lparr>rev_pr_number = PInt n, rev_repo = PStr ''o/r'', rev_success = PBool True,
      rev_findings = [example_finding], rev_summary = PStr ''One finding'',
      rev_overall_status = PStr status, rev_review_id = PNone,
      rev_reviewed_at = PStr ''2026-01-01T10:00:00'', rev_error = PNone\<rparr>"

definition example_triage :: TriageResult where
  "example_triage =
     \<lparr>tri_issue_number = PInt 7, tri_repo = PStr ''o/r'', tri_category = BUG,
      tri_confidence = PFloat (3 / 4), tri_labels_to_add = PList [PStr ''bug''],
      tri_labels_to_remove = PList [], tri_is_duplicate = PBool False, tri_duplicate_of = PNone,
      tri_is_spam = PBool False, tri_is_feature_creep = PBool False,
      tri_suggested_breakdown = PList [], tri_priority = PStr ''medium'', tri_comment = PNone,
      tri_triaged_at = PStr ''2026-01-01T10:00:00''\<rparr>"

definition example_autofix :: AutoFixState where
  "example_autofix =
     \<lparr>afs_issue_number = PInt 42, afs_issue_url = PStr ''https://x/42'', afs_repo = PStr ''o/r'',
      afs_status = PENDING, afs_spec_id = PNone, afs_spec_dir = PNone, afs_pr_number = PNone,
      afs_pr_url = PNone, afs_bot_comments = PList [], afs_error = PNone,
      afs_created_at = PStr ''2026-01-01T10:00:00'', afs_updated_at = PStr ''2026-01-01T10:00:00''\<rparr>"

definition example_autofix_of :: "int \<Rightarrow> AutoFixStatus \<Rightarrow> AutoFixState" where
  "example_autofix_of n status = example_autofix\<lparr>afs_issue_number := PInt n, afs_status := status\<rparr>"

definition example_finding_dict :: "(string \<times> pyval) list" where
  "example_finding_dict =
     [(''id'', PStr ''F1''), (''severity'', PStr ''high''), (''category'', PStr ''security''),
      (''title'', PStr ''Unchecked input''), (''description'', PStr ''The handler trusts the header''),
      (''file'', PStr ''app/main.py''), (''line'', PInt 10)]"

text \<open>
  The entry list after an upsert, in the words of the specification: when an entry has the
  identifier, every entry that has it is replaced where it stands; when none has it, the new
  entry is appended.
\<close>

definition replace_or_append :: "string \<Rightarrow> pyval \<Rightarrow> pyval \<Rightarrow> pyval list \<Rightarrow> pyval list" where
  "replace_or_append key ident entry rs =
     (if list_ex (entry_matches key ident) rs
      then map (\<lambda>r. if entry_matches key ident r then entry else r) rs
      else rs @ [entry])"

section \<open>Basic facts\<close>

lemma bnd_Inr [simp]: "bnd (Inr v) f = f v" by (simp add: bnd_def)
lemma bnd_Inl [simp]: "bnd (Inl e) f = Inl e" by (simp add: bnd_def)

lemma ReviewSeverity_of_vocabulary:
  "v \<in> set ReviewSeverity_vocabulary \<Longrightarrow> \<exists>s. ReviewSeverity_of v = Inr s"
  by (auto simp: ReviewSeverity_vocabulary_def ReviewSeverity_of_def)
lemma ReviewCategory_of_vocabulary:
  "v \<in> set ReviewCategory_vocabulary \<Longrightarrow> \<exists>s. ReviewCategory_of v = Inr s"
  by (auto simp: ReviewCategory_vocabulary_def ReviewCategory_of_def)
lemma TriageCategory_of_vocabulary:
  "v \<in> set TriageCategory_vocabulary \<Longrightarrow> \<exists>s. TriageCategory_of v = Inr s"
  by (auto simp: TriageCategory_vocabulary_def TriageCategory_of_def)
lemma AutoFixStatus_of_vocabulary:
  "v \<in> set AutoFixStatus_vocabulary \<Longrightarrow> \<exists>s. AutoFixStatus_of v = Inr s"
  by (auto simp: AutoFixStatus_vocabulary_def AutoFixStatus_of_def)

lemma ReviewSeverity_of_outside:
  "v \<notin> set ReviewSeverity_vocabulary \<Longrightarrow> ReviewSeverity_of v = Inl (ValueError v ''ReviewSeverity'')"
  by (simp add: ReviewSeverity_vocabulary_def ReviewSeverity_of_def)
lemma ReviewCategory_of_outside:
  "v \<notin> set ReviewCategory_vocabulary \<Longrightarrow> ReviewCategory_of v = Inl (ValueError v ''ReviewCategory'')"
  by (simp add: ReviewCategory_vocabulary_def ReviewCategory_of_def)
lemma TriageCategory_of_outside:
  "v \<notin> set TriageCategory_vocabulary \<Longrightarrow> TriageCategory_of v = Inl (ValueError v ''TriageCategory'')"
  by (simp add: TriageCategory_vocabulary_def TriageCategory_of_def)
lemma AutoFixStatus_of_outside:
  "v \<notin> set AutoFixStatus_vocabulary \<Longrightarrow> AutoFixStatus_of v = Inl (ValueError v ''AutoFixStatus'')"
  by (simp add: AutoFixStatus_vocabulary_def AutoFixStatus_of_def)

lemma finding_prefix_id:
  "map_of d ''id'' = None \<Longrightarrow> PRReviewFinding_from_dict (PDict d) = Inl (KeyError ''id'')"
  by (simp add: PRReviewFinding_from_dict_def)

lemma finding_prefix_severity:
  "map_of d ''id'' = Some a \<Longrightarrow> map_of d ''severity'' = None \<Longrightarrow>
   PRReviewFinding_from_dict (PDict d) = Inl (KeyError ''severity'')"
  by (simp add: PRReviewFinding_from_dict_def)

lemma finding_prefix_category:
  "map_of d ''id'' = Some a \<Longrightarrow> map_of d ''severity'' = Some sv \<Longrightarrow> ReviewSeverity_of sv = Inr s \<Longrightarrow>
   map_of d ''category'' = None \<Longrightarrow>
   PRReviewFinding_from_dict (PDict d) = Inl (KeyError ''category'')"
  by (simp add: PRReviewFinding_from_dict_def)

lemma finding_after_enums:
  "map_of d ''id'' = Some a \<Longrightarrow> map_of d ''severity'' = Some sv \<Longrightarrow> ReviewSeverity_of sv = Inr s \<Longrightarrow>
   map_of d ''category'' = Some cv \<Longrightarrow> ReviewCategory_of cv = Inr c \<Longrightarrow>
   PRReviewFinding_from_dict (PDict d) =
     bnd (py_getitem (PDict d) ''title'') (\<lambda>v_title.
     bnd (py_getitem (PDict d) ''description'') (\<lambda>v_description.
     bnd (py_getitem (PDict d) ''file'') (\<lambda>v_file.
     bnd (py_getitem (PDict d) ''line'') (\<lambda>v_line.
     Inr \<lparr>fnd_id = a, fnd_severity = s, fnd_category = c,
          fnd_title = v_title, fnd_description = v_description, fnd_file = v_file,
          fnd_line = v_line, fnd_end_line = (case map_of d ''end_line'' of None \<Rightarrow> PNone | Some v \<Rightarrow> v),
          fnd_suggested_fix = (case map_of d ''suggested_fix'' of None \<Rightarrow> PNone | Some v \<Rightarrow> v),
          fnd_fixable = (case map_of d ''fixable'' of None \<Rightarrow> PBool False | Some v \<Rightarrow> v)\<rparr>))))"
  by (simp add: PRReviewFinding_from_dict_def)


lemma fm_finding:
  assumes fm: "first_missing PRReviewFinding_required d = Some k"
    and sev: "k \<notin> {''id'', ''severity''} \<longrightarrow> enum_field_ok ReviewSeverity_vocabulary d ''severity''"
    and cat: "k \<notin> {''id'', ''severity'', ''category''} \<longrightarrow>
              enum_field_ok ReviewCategory_vocabulary d ''category''"
  shows "PRReviewFinding_from_dict (PDict d) = Inl (KeyError k)"
proof (cases "map_of d ''id''")
  case None
  with fm have "k = ''id''"
    by (simp add: first_missing_def PRReviewFinding_required_def)
  with None show ?thesis by (simp add: finding_prefix_id)
next
  case id: (Some a)
  show ?thesis
  proof (cases "map_of d ''severity''")
    case None
    with fm id have "k = ''severity''"
      by (simp add: first_missing_def PRReviewFinding_required_def)
    with None id show ?thesis by (simp add: finding_prefix_severity)
  next
    case sv: (Some sv)
    from fm id sv have rest: "find (\<lambda>k. map_of d k = None)
        [''category'', ''title'', ''description'', ''file'', ''line''] = Some k"
      by (simp add: first_missing_def PRReviewFinding_required_def)
    then have "k \<notin> {''id'', ''severity''}"
      by (auto split: if_splits)
    with sev sv obtain s where s: "ReviewSeverity_of sv = Inr s"
      by (auto simp: enum_field_ok_def dest: ReviewSeverity_of_vocabulary)
    show ?thesis
    proof (cases "map_of d ''category''")
      case None
      with rest have "k = ''category''" by simp
      with None id sv s show ?thesis by (simp add: finding_prefix_category)
    next
      case cv: (Some cv)
      from rest cv have rest': "find (\<lambda>k. map_of d k = None)
          [''title'', ''description'', ''file'', ''line''] = Some k"
        by simp
      then have "k \<notin> {''id'', ''severity'', ''category''}"
        by (auto split: if_splits)
      with cat cv obtain c where c: "ReviewCategory_of cv = Inr c"
        by (auto simp: enum_field_ok_def dest: ReviewCategory_of_vocabulary)
      from rest' show ?thesis
        unfolding finding_after_enums [OF id sv s cv c]
        by (auto split: if_splits)
    qed
  qed
qed

lemma fm_review:
  "first_missing PRReviewResult_required d = Some k \<Longrightarrow>
   PRReviewResult_from_dict now (PDict d) = Inl (KeyError k)"
  unfolding first_missing_def PRReviewResult_required_def PRReviewResult_from_dict_def
  by (auto split: if_splits)

lemma fm_autofix:
  "first_missing AutoFixState_required d = Some k \<Longrightarrow>
   AutoFixState_from_dict now1 now2 (PDict d) = Inl (KeyError k)"
  unfolding first_missing_def AutoFixState_required_def AutoFixState_from_dict_def
  by (auto split: if_splits)

lemma fm_triage:
  assumes fm: "first_missing TriageResult_required d = Some k"
    and cat: "k = ''confidence'' \<longrightarrow> enum_field_ok TriageCategory_vocabulary d ''category''"
  shows "TriageResult_from_dict now (PDict d) = Inl (KeyError k)"
proof (cases "k = ''confidence''")
  case False
  with fm show ?thesis
    unfolding first_missing_def TriageResult_required_def TriageResult_from_dict_def
    by (auto split: if_splits)
next
  case True
  with fm obtain a b cv where p: "map_of d ''issue_number'' = Some a" "map_of d ''repo'' = Some b"
      "map_of d ''category'' = Some cv" "map_of d ''confidence'' = None"
    unfolding first_missing_def TriageResult_required_def
    by (auto split: if_splits)
  with cat True obtain c where "TriageCategory_of cv = Inr c"
    by (auto simp: enum_field_ok_def dest: TriageCategory_of_vocabulary)
  with p True show ?thesis
    by (simp add: TriageResult_from_dict_def)
qed

lemma bnd_eq_Inr: "(bnd m f = Inr r) = (\<exists>v. m = Inr v \<and> f v = Inr r)"
  by (cases m) simp_all

lemma getitem_eq_Inr: "(py_getitem (PDict d) k = Inr v) = (map_of d k = Some v)"
  by (simp split: option.splits)

lemma finding_decoded:
  assumes "PRReviewFinding_from_dict (PDict d) = Inr f"
  shows "map_of d ''id'' = Some (fnd_id f)"
    and "\<exists>sv. map_of d ''severity'' = Some sv \<and> ReviewSeverity_of sv = Inr (fnd_severity f)"
    and "\<exists>cv. map_of d ''category'' = Some cv \<and> ReviewCategory_of cv = Inr (fnd_category f)"
    and "map_of d ''title'' = Some (fnd_title f)"
    and "map_of d ''description'' = Some (fnd_description f)"
    and "map_of d ''file'' = Some (fnd_file f)"
    and "map_of d ''line'' = Some (fnd_line f)"
    and "fnd_end_line f = (case map_of d ''end_line'' of None \<Rightarrow> PNone | Some v \<Rightarrow> v)"
    and "fnd_suggested_fix f = (case map_of d ''suggested_fix'' of None \<Rightarrow> PNone | Some v \<Rightarrow> v)"
    and "fnd_fixable f = (case map_of d ''fixable'' of None \<Rightarrow> PBool False | Some v \<Rightarrow> v)"
  using assms unfolding PRReviewFinding_from_dict_def bnd_eq_Inr getitem_eq_Inr
  by auto

lemma review_decoded:
  assumes "PRReviewResult_from_dict now (PDict d) = Inr r"
  shows "map_of d ''pr_number'' = Some (rev_pr_number r)"
    and "map_of d ''repo'' = Some (rev_repo r)"
    and "map_of d ''success'' = Some (rev_success r)"
  using assms unfolding PRReviewResult_from_dict_def bnd_eq_Inr getitem_eq_Inr
  by auto

lemma triage_decoded:
  assumes "TriageResult_from_dict now (PDict d) = Inr t"
  shows "map_of d ''issue_number'' = Some (tri_issue_number t)"
    and "map_of d ''repo'' = Some (tri_repo t)"
    and "\<exists>cv. map_of d ''category'' = Some cv \<and> TriageCategory_of cv = Inr (tri_category t)"
    and "map_of d ''confidence'' = Some (tri_confidence t)"
  using assms unfolding TriageResult_from_dict_def bnd_eq_Inr getitem_eq_Inr
  by auto

lemma autofix_decoded:
  assumes "AutoFixState_from_dict now1 now2 (PDict d) = Inr a"
  shows "map_of d ''issue_number'' = Some (afs_issue_number a)"
    and "map_of d ''issue_url'' = Some (afs_issue_url a)"
    and "map_of d ''repo'' = Some (afs_repo a)"
    and "AutoFixStatus_of (case map_of d ''status'' of None \<Rightarrow> PStr ''pending'' | Some v \<Rightarrow> v)
           = Inr (afs_status a)"
  using assms unfolding AutoFixState_from_dict_def bnd_eq_Inr getitem_eq_Inr
  by auto

lemma has_ident_cases:
  assumes "has_ident key r"
  obtains kvs v where "r = PDict kvs" and "map_of kvs key = Some v"
  using assms by (cases r) (auto simp: has_ident_def split: option.splits)

lemma has_ident_truthy: "has_ident key r \<Longrightarrow> py_truthy r"
  by (erule has_ident_cases) auto

lemma has_ident_getitem:
  "has_ident key r \<Longrightarrow> \<exists>v. py_getitem r key = Inr v \<and> entry_matches key ident r = py_eq v ident"
  by (erule has_ident_cases) (simp add: entry_matches_def)

lemma find_existing_none:
  "list_all (has_ident key) rs \<Longrightarrow> \<not> list_ex (entry_matches key ident) rs \<Longrightarrow>
   find_existing key ident rs = Inr PNone"
proof (induction rs)
  case Nil
  then show ?case by simp
next
  case (Cons r rs)
  from Cons.prems obtain v where "py_getitem r key = Inr v" "\<not> py_eq v ident"
    using has_ident_getitem [of key r ident] by auto
  with Cons show ?case by simp
qed

lemma find_existing_found:
  "list_all (has_ident key) rs \<Longrightarrow> list_ex (entry_matches key ident) rs \<Longrightarrow>
   \<exists>r. find_existing key ident rs = Inr r \<and> py_truthy r"
proof (induction rs)
  case Nil
  then show ?case by simp
next
  case (Cons r rs)
  from Cons.prems obtain v where v: "py_getitem r key = Inr v" "entry_matches key ident r = py_eq v ident"
    using has_ident_getitem [of key r ident] by auto
  show ?case
  proof (cases "py_eq v ident")
    case True
    moreover from Cons.prems have "has_ident key r" by simp
    then have "py_truthy r" by (rule has_ident_truthy)
    ultimately show ?thesis using v by simp
  next
    case False
    with v Cons show ?thesis by simp
  qed
qed

lemma replace_matching_list:
  "list_all (has_ident key) rs \<Longrightarrow>
   replace_matching key ident entry rs =
     Inr (map (\<lambda>r. if entry_matches key ident r then entry else r) rs)"
proof (induction rs)
  case Nil
  then show ?case by (simp add: replace_matching_def)
next
  case (Cons r rs)
  from Cons.prems obtain v where v: "py_getitem r key = Inr v" "entry_matches key ident r = py_eq v ident"
    using has_ident_getitem [of key r ident] by auto
  with Cons show ?case by (simp add: replace_matching_def)
qed

lemma upsert_list:
  assumes "list_all (has_ident key) rs"
  shows "upsert key ident entry (PList rs) =
     Inr (PList (if list_ex (entry_matches key ident) rs
                 then map (\<lambda>r. if entry_matches key ident r then entry else r) rs
                 else rs @ [entry]))"
proof (cases "list_ex (entry_matches key ident) rs")
  case True
  with assms obtain r where "find_existing key ident rs = Inr r" "py_truthy r"
    using find_existing_found by blast
  with True assms show ?thesis
    by (simp add: upsert_def replace_matching_list)
next
  case False
  with assms have "find_existing key ident rs = Inr PNone"
    by (rule find_existing_none)
  with False show ?thesis
    by (simp add: upsert_def)
qed

lemma map_of_dict_set: "map_of (dict_set kvs k v) = (map_of kvs)(k \<mapsto> v)"
  by (induction kvs) auto

lemma filter_dict_set:
  "(\<And>w. \<not> P (k, w)) \<Longrightarrow> filter P (dict_set kvs k v) = filter P kvs"
  by (induction kvs) auto

lemma ReviewSeverity_of_value [simp]: "ReviewSeverity_of (PStr (ReviewSeverity_value s)) = Inr s"
  by (cases s) (simp_all add: ReviewSeverity_of_def)

lemma ReviewCategory_of_value [simp]: "ReviewCategory_of (PStr (ReviewCategory_value s)) = Inr s"
  by (cases s) (simp_all add: ReviewCategory_of_def)

lemma TriageCategory_of_value [simp]: "TriageCategory_of (PStr (TriageCategory_value s)) = Inr s"
  by (cases s) (simp_all add: TriageCategory_of_def)

lemma AutoFixStatus_of_value [simp]: "AutoFixStatus_of (PStr (AutoFixStatus_value s)) = Inr s"
  by (cases s) (simp_all add: AutoFixStatus_of_def)

lemma finding_roundtrip: "PRReviewFinding_from_dict (PRReviewFinding_to_dict f) = Inr f"
  by (simp add: PRReviewFinding_from_dict_def PRReviewFinding_to_dict_def)

lemma findings_roundtrip: "mapM PRReviewFinding_from_dict (map PRReviewFinding_to_dict fs) = Inr fs"
  by (induction fs) (simp_all add: finding_roundtrip)

lemma review_roundtrip: "PRReviewResult_from_dict now (PRReviewResult_to_dict r) = Inr r"
  by (simp add: PRReviewResult_from_dict_def PRReviewResult_to_dict_def findings_roundtrip)

lemma triage_roundtrip: "TriageResult_from_dict now (TriageResult_to_dict t) = Inr t"
  by (simp add: TriageResult_from_dict_def TriageResult_to_dict_def)

lemma autofix_roundtrip: "AutoFixState_from_dict nowc nowu (AutoFixState_to_dict a) = Inr a"
  by (simp add: AutoFixState_from_dict_def AutoFixState_to_dict_def)

lemma load_results:
  "bnd (bnd (json_load c) dec) (\<lambda>r. Inr (Some r)) \<noteq> Inr None"
  "bnd (bnd (json_load Malformed) dec) (\<lambda>r. Inr (Some r)) = Inl JSONDecodeError"
  "dec d = Inl e \<Longrightarrow> bnd (bnd (json_load (Json d)) dec) (\<lambda>r. Inr (Some r)) = Inl e"
  "dec d = Inr x \<Longrightarrow> bnd (bnd (json_load (Json d)) dec) (\<lambda>r. Inr (Some r)) = Inr (Some x)"
  by (cases c; cases "dec (case c of Json v \<Rightarrow> v)"; simp)+

lemma load_settings_absent:
  "fs (config_file dir) = None \<Longrightarrow> load_settings dir t r b fs = Inr (default_config t r b)"
  by (simp add: load_settings_def default_config_def)

lemma load_settings_object:
  "fs (config_file dir) = Some (Json (PDict kvs)) \<Longrightarrow>
   load_settings dir t r b fs = Inr (config_of_settings t r b kvs)"
  by (simp add: load_settings_def config_of_settings_def setting_def)

lemma load_settings_secrets:
  assumes "load_settings dir t r b fs = Inr c"
  shows "cfg_token c = t \<and> cfg_repo c = r \<and> cfg_bot_token c = b"
  using assms unfolding load_settings_def bnd_eq_Inr by auto

lemma finding_decoded_lines:
  assumes "PRReviewFinding_from_dict (PDict d) = Inr f"
  shows "map_of d ''line'' = Some (fnd_line f)"
    and "fnd_end_line f = (case map_of d ''end_line'' of None \<Rightarrow> PNone | Some v \<Rightarrow> v)"
  using finding_decoded [OF assms] by simp_all

lemma finding_missing_fails:
  assumes "k \<in> set PRReviewFinding_required" and "map_of d k = None"
  shows "\<exists>e. PRReviewFinding_from_dict (PDict d) = Inl e"
proof (cases "PRReviewFinding_from_dict (PDict d)")
  case (Inl e)
  then show ?thesis by simp
next
  case (Inr f)
  from finding_decoded [OF Inr] assms show ?thesis
    by (auto simp: PRReviewFinding_required_def)
qed

lemma review_missing_fails:
  assumes "k \<in> set PRReviewResult_required" and "map_of d k = None"
  shows "\<exists>e. PRReviewResult_from_dict now (PDict d) = Inl e"
proof (cases "PRReviewResult_from_dict now (PDict d)")
  case (Inl e)
  then show ?thesis by simp
next
  case (Inr f)
  from review_decoded [OF Inr] assms show ?thesis
    by (auto simp: PRReviewResult_required_def)
qed

lemma triage_missing_fails:
  assumes "k \<in> set TriageResult_required" and "map_of d k = None"
  shows "\<exists>e. TriageResult_from_dict now (PDict d) = Inl e"
proof (cases "TriageResult_from_dict now (PDict d)")
  case (Inl e)
  then show ?thesis by simp
next
  case (Inr f)
  from triage_decoded [OF Inr] assms show ?thesis
    by (auto simp: TriageResult_required_def)
qed

lemma autofix_missing_fails:
  assumes "k \<in> set AutoFixState_required" and "map_of d k = None"
  shows "\<exists>e. AutoFixState_from_dict nowc nowu (PDict d) = Inl e"
proof (cases "AutoFixState_from_dict nowc nowu (PDict d)")
  case (Inl e)
  then show ?thesis by simp
next
  case (Inr f)
  from autofix_decoded [OF Inr] assms show ?thesis
    by (auto simp: AutoFixState_required_def)
qed

lemma finding_invalid_severity:
  assumes "map_of d ''id'' \<noteq> None" and "map_of d ''severity'' = Some v"
    and "v \<notin> set ReviewSeverity_vocabulary"
  shows "PRReviewFinding_from_dict (PDict d) = Inl (ValueError v ''ReviewSeverity'')"
  using assms by (auto simp: PRReviewFinding_from_dict_def ReviewSeverity_of_outside)

lemma finding_invalid_category:
  assumes "map_of d ''id'' \<noteq> None" and "enum_field_ok ReviewSeverity_vocabulary d ''severity''"
    and "map_of d ''severity'' \<noteq> None" and "map_of d ''category'' = Some v"
    and "v \<notin> set ReviewCategory_vocabulary"
  shows "PRReviewFinding_from_dict (PDict d) = Inl (ValueError v ''ReviewCategory'')"
proof -
  from assms(1) obtain a where a: "map_of d ''id'' = Some a" by auto
  from assms(3) obtain sv where sv: "map_of d ''severity'' = Some sv" by auto
  with assms(2) obtain s where s: "ReviewSeverity_of sv = Inr s"
    by (auto simp: enum_field_ok_def dest: ReviewSeverity_of_vocabulary)
  from a sv s assms(4,5) show ?thesis
    by (simp add: PRReviewFinding_from_dict_def ReviewCategory_of_outside)
qed

lemma triage_invalid_category:
  assumes "map_of d ''issue_number'' \<noteq> None" and "map_of d ''repo'' \<noteq> None"
    and "map_of d ''category'' = Some v" and "v \<notin> set TriageCategory_vocabulary"
  shows "TriageResult_from_dict now (PDict d) = Inl (ValueError v ''TriageCategory'')"
  using assms by (auto simp: TriageResult_from_dict_def TriageCategory_of_outside)

lemma autofix_invalid_status:
  assumes "map_of d ''issue_number'' \<noteq> None" and "map_of d ''issue_url'' \<noteq> None"
    and "map_of d ''repo'' \<noteq> None"
    and "map_of d ''status'' = Some v" and "v \<notin> set AutoFixStatus_vocabulary"
  shows "AutoFixState_from_dict nowc nowu (PDict d) = Inl (ValueError v ''AutoFixStatus'')"
  using assms by (auto simp: AutoFixState_from_dict_def AutoFixStatus_of_outside)

lemma finding_invalid_severity_fails:
  assumes "map_of d ''severity'' = Some v" and "v \<notin> set ReviewSeverity_vocabulary"
  shows "\<exists>e. PRReviewFinding_from_dict (PDict d) = Inl e"
proof (cases "PRReviewFinding_from_dict (PDict d)")
  case (Inl e)
  then show ?thesis by simp
next
  case (Inr f)
  from finding_decoded(2) [OF Inr] assms show ?thesis
    by (auto simp: ReviewSeverity_of_outside)
qed

lemma finding_invalid_category_fails:
  assumes "map_of d ''category'' = Some v" and "v \<notin> set ReviewCategory_vocabulary"
  shows "\<exists>e. PRReviewFinding_from_dict (PDict d) = Inl e"
proof (cases "PRReviewFinding_from_dict (PDict d)")
  case (Inl e)
  then show ?thesis by simp
next
  case (Inr f)
  from finding_decoded(3) [OF Inr] assms show ?thesis
    by (auto simp: ReviewCategory_of_outside)
qed

lemma triage_invalid_category_fails:
  assumes "map_of d ''category'' = Some v" and "v \<notin> set TriageCategory_vocabulary"
  shows "\<exists>e. TriageResult_from_dict now (PDict d) = Inl e"
proof (cases "TriageResult_from_dict now (PDict d)")
  case (Inl e)
  then show ?thesis by simp
next
  case (Inr f)
  from triage_decoded(3) [OF Inr] assms show ?thesis
    by (auto simp: TriageCategory_of_outside)
qed

lemma autofix_invalid_status_fails:
  assumes "map_of d ''status'' = Some v" and "v \<notin> set AutoFixStatus_vocabulary"
  shows "\<exists>e. AutoFixState_from_dict nowc nowu (PDict d) = Inl e"
proof (cases "AutoFixState_from_dict nowc nowu (PDict d)")
  case (Inl e)
  then show ?thesis by simp
next
  case (Inr f)
  from autofix_decoded(4) [OF Inr] assms show ?thesis
    by (auto simp: AutoFixStatus_of_outside)
qed

lemma upsert_replace_or_append:
  "list_all (has_ident key) rs \<Longrightarrow>
   upsert key ident entry (PList rs) = Inr (PList (replace_or_append key ident entry rs))"
  by (simp add: upsert_list replace_or_append_def)

lemma replace_or_append_absent:
  "\<not> list_ex (entry_matches key ident) rs \<Longrightarrow> replace_or_append key ident entry rs = rs @ [entry]"
  by (simp add: replace_or_append_def)

lemma replace_or_append_length:
  "list_ex (entry_matches key ident) rs \<Longrightarrow> length (replace_or_append key ident entry rs) = length rs"
  by (simp add: replace_or_append_def)

lemma replace_or_append_nth:
  "list_ex (entry_matches key ident) rs \<Longrightarrow> j < length rs \<Longrightarrow>
   replace_or_append key ident entry rs ! j = (if entry_matches key ident (rs ! j) then entry else rs ! j)"
  by (simp add: replace_or_append_def)

lemma replace_or_append_unique:
  assumes i: "i < length rs" and m: "entry_matches key ident (rs ! i)"
    and u: "\<forall>j<length rs. j \<noteq> i \<longrightarrow> \<not> entry_matches key ident (rs ! j)"
  shows "replace_or_append key ident entry rs = rs[i := entry]"
proof -
  from i m have ex: "list_ex (entry_matches key ident) rs"
    by (auto simp: list_ex_iff)
  show ?thesis
  proof (rule nth_equalityI)
    show "length (replace_or_append key ident entry rs) = length (rs[i := entry])"
      using ex by (simp add: replace_or_append_length)
  next
    fix j
    assume "j < length (replace_or_append key ident entry rs)"
    with ex have j: "j < length rs" by (simp add: replace_or_append_length)
    show "replace_or_append key ident entry rs ! j = rs[i := entry] ! j"
    proof (cases "j = i")
      case True
      with ex i m show ?thesis by (simp add: replace_or_append_nth)
    next
      case False
      with u j have "\<not> entry_matches key ident (rs ! j)" by simp
      with ex j False show ?thesis by (simp add: replace_or_append_nth)
    qed
  qed
qed

lemma review_file_not_index [simp]:
  "review_file fmt dir n \<noteq> pr_index_file dir" "pr_index_file dir \<noteq> review_file fmt dir n"
  by (simp_all add: review_file_def pr_index_file_def)

lemma autofix_file_not_index [simp]:
  "autofix_file fmt dir n \<noteq> issues_index_file dir" "issues_index_file dir \<noteq> autofix_file fmt dir n"
  by (simp_all add: autofix_file_def issues_index_file_def)

lemma review_new_index_existing:
  assumes "map_of idx ''reviews'' = Some (PList rs)" and "list_all (has_ident ''pr_number'') rs"
  shows "PRReviewResult_new_index now self (PDict idx) =
     Inr (PDict (dict_set (dict_set idx ''reviews''
        (PList (replace_or_append ''pr_number'' (rev_pr_number self) (PRReviewResult_index_entry self) rs)))
        ''last_updated'' (PStr now)))"
  using assms by (simp add: PRReviewResult_new_index_def upsert_replace_or_append)

lemma autofix_new_index_existing:
  assumes "map_of idx ''auto_fix_queue'' = Some (PList rs)" and "list_all (has_ident ''issue_number'') rs"
  shows "AutoFixState_new_index now self (PDict idx) =
     Inr (PDict (dict_set (dict_set idx ''auto_fix_queue''
        (PList (replace_or_append ''issue_number'' (afs_issue_number self) (AutoFixState_index_entry self) rs)))
        ''last_updated'' (PStr now)))"
  using assms by (simp add: AutoFixState_new_index_def upsert_replace_or_append)

lemma PRReviewResult_update_index_at:
  "PRReviewResult_update_index now self (github_dir @ [''pr'']) fs =
     (case bnd (case fs (pr_index_file github_dir) of
                  Some c \<Rightarrow> json_load c
                | None \<Rightarrow> Inr (PDict [(''reviews'', PList []), (''last_updated'', PNone)]))
               (PRReviewResult_new_index now self) of
        Inl e \<Rightarrow> (Some e, fs)
      | Inr index \<Rightarrow> (None, fs(pr_index_file github_dir \<mapsto> Json index)))"
  by (simp add: PRReviewResult_update_index_def pr_index_file_def cong: sum.case_cong)

lemma AutoFixState_update_index_at:
  "AutoFixState_update_index now self (github_dir @ [''issues'']) fs =
     (case bnd (case fs (issues_index_file github_dir) of
                  Some c \<Rightarrow> json_load c
                | None \<Rightarrow> Inr (PDict [(''triaged'', PList []), (''auto_fix_queue'', PList []),
                                       (''last_updated'', PNone)]))
               (AutoFixState_new_index now self) of
        Inl e \<Rightarrow> (Some e, fs)
      | Inr index \<Rightarrow> (None, fs(issues_index_file github_dir \<mapsto> Json index)))"
  by (simp add: AutoFixState_update_index_def issues_index_file_def cong: sum.case_cong)


lemma review_save_existing:
  assumes "fs (pr_index_file dir) = Some (Json (PDict idx))"
    and "map_of idx ''reviews'' = Some (PList rs)" and "list_all (has_ident ''pr_number'') rs"
  shows "PRReviewResult_save fmt now self dir fs =
     (None, fs(review_file fmt dir (rev_pr_number self) \<mapsto> Json (PRReviewResult_to_dict self),
               pr_index_file dir \<mapsto> Json (PDict (dict_set (dict_set idx ''reviews''
        (PList (replace_or_append ''pr_number'' (rev_pr_number self) (PRReviewResult_index_entry self) rs)))
        ''last_updated'' (PStr now)))))"
  using assms
  by (simp add: PRReviewResult_save_def PRReviewResult_update_index_at review_new_index_existing)

lemma review_save_fresh:
  assumes "fs (pr_index_file dir) = None"
  shows "PRReviewResult_save fmt now self dir fs =
     (None, fs(review_file fmt dir (rev_pr_number self) \<mapsto> Json (PRReviewResult_to_dict self),
               pr_index_file dir \<mapsto> Json (PDict [(''reviews'', PList [PRReviewResult_index_entry self]),
                                                   (''last_updated'', PStr now)])))"
  using assms
  by (simp add: PRReviewResult_save_def PRReviewResult_update_index_at
      review_new_index_existing [where rs = "[]"] replace_or_append_def)

lemma autofix_save_existing:
  assumes "fs (issues_index_file dir) = Some (Json (PDict idx))"
    and "map_of idx ''auto_fix_queue'' = Some (PList rs)" and "list_all (has_ident ''issue_number'') rs"
  shows "AutoFixState_save fmt now self dir fs =
     (None, fs(autofix_file fmt dir (afs_issue_number self) \<mapsto> Json (AutoFixState_to_dict self),
               issues_index_file dir \<mapsto> Json (PDict (dict_set (dict_set idx ''auto_fix_queue''
        (PList (replace_or_append ''issue_number'' (afs_issue_number self) (AutoFixState_index_entry self) rs)))
        ''last_updated'' (PStr now)))))"
  using assms
  by (simp add: AutoFixState_save_def AutoFixState_update_index_at autofix_new_index_existing)

lemma autofix_save_fresh:
  assumes "fs (issues_index_file dir) = None"
  shows "AutoFixState_save fmt now self dir fs =
     (None, fs(autofix_file fmt dir (afs_issue_number self) \<mapsto> Json (AutoFixState_to_dict self),
               issues_index_file dir \<mapsto> Json (PDict [(''triaged'', PList []),
                  (''auto_fix_queue'', PList [AutoFixState_index_entry self]),
                  (''last_updated'', PStr now)])))"
  using assms
  by (simp add: AutoFixState_save_def AutoFixState_update_index_at
      autofix_new_index_existing [where rs = "[]"] replace_or_append_def)

lemma review_entry_has_ident: "has_ident ''pr_number'' (PRReviewResult_index_entry r)"
  by (simp add: has_ident_def PRReviewResult_index_entry_def)

lemma review_entry_matches:
  "entry_matches ''pr_number'' n (PRReviewResult_index_entry r) = py_eq (rev_pr_number r) n"
  by (simp add: entry_matches_def PRReviewResult_index_entry_def)

lemma review_save_sequence:
  assumes nofile: "fs (pr_index_file dir) = None"
    and n1: "rev_pr_number r1 = PInt 1" and n2: "rev_pr_number r2 = PInt 2"
    and n3: "rev_pr_number r3 = PInt 1"
  shows "fst (PRReviewResult_save fmt t1 r1 dir fs) = None"
    and "fst (PRReviewResult_save fmt t2 r2 dir (snd (PRReviewResult_save fmt t1 r1 dir fs))) = None"
    and "fst (PRReviewResult_save fmt t3 r3 dir
           (snd (PRReviewResult_save fmt t2 r2 dir (snd (PRReviewResult_save fmt t1 r1 dir fs))))) = None"
    and "snd (PRReviewResult_save fmt t3 r3 dir
           (snd (PRReviewResult_save fmt t2 r2 dir (snd (PRReviewResult_save fmt t1 r1 dir fs)))))
           (pr_index_file dir)
         = Some (Json (PDict [(''reviews'', PList [PRReviewResult_index_entry r3, PRReviewResult_index_entry r2]),
                              (''last_updated'', PStr t3)]))"
proof -
  define fs1 where "fs1 = snd (PRReviewResult_save fmt t1 r1 dir fs)"
  define fs2 where "fs2 = snd (PRReviewResult_save fmt t2 r2 dir fs1)"
  have s1: "PRReviewResult_save fmt t1 r1 dir fs =
     (None, fs(review_file fmt dir (rev_pr_number r1) \<mapsto> Json (PRReviewResult_to_dict r1),
               pr_index_file dir \<mapsto> Json (PDict [(''reviews'', PList [PRReviewResult_index_entry r1]),
                                                   (''last_updated'', PStr t1)])))"
    using nofile by (rule review_save_fresh)
  then have i1: "fs1 (pr_index_file dir) =
      Some (Json (PDict [(''reviews'', PList [PRReviewResult_index_entry r1]), (''last_updated'', PStr t1)]))"
    by (simp add: fs1_def)
  have s2: "PRReviewResult_save fmt t2 r2 dir fs1 =
     (None, fs1(review_file fmt dir (rev_pr_number r2) \<mapsto> Json (PRReviewResult_to_dict r2),
               pr_index_file dir \<mapsto> Json (PDict
                  [(''reviews'', PList [PRReviewResult_index_entry r1, PRReviewResult_index_entry r2]),
                   (''last_updated'', PStr t2)])))"
    using review_save_existing [where fs = fs1 and dir = dir
        and idx = "[(''reviews'', PList [PRReviewResult_index_entry r1]), (''last_updated'', PStr t1)]"
        and rs = "[PRReviewResult_index_entry r1]" and fmt = fmt and now = t2 and self = r2]
    by (simp add: i1 review_entry_has_ident review_entry_matches replace_or_append_def n1 n2)
  then have i2: "fs2 (pr_index_file dir) =
      Some (Json (PDict [(''reviews'', PList [PRReviewResult_index_entry r1, PRReviewResult_index_entry r2]),
                         (''last_updated'', PStr t2)]))"
    by (simp add: fs2_def)
  have s3: "PRReviewResult_save fmt t3 r3 dir fs2 =
     (None, fs2(review_file fmt dir (rev_pr_number r3) \<mapsto> Json (PRReviewResult_to_dict r3),
               pr_index_file dir \<mapsto> Json (PDict
                  [(''reviews'', PList [PRReviewResult_index_entry r3, PRReviewResult_index_entry r2]),
                   (''last_updated'', PStr t3)])))"
    using review_save_existing [where fs = fs2 and dir = dir
        and idx = "[(''reviews'', PList [PRReviewResult_index_entry r1, PRReviewResult_index_entry r2]),
                    (''last_updated'', PStr t2)]"
        and rs = "[PRReviewResult_index_entry r1, PRReviewResult_index_entry r2]"
        and fmt = fmt and now = t3 and self = r3]
    by (simp add: i2 review_entry_has_ident review_entry_matches replace_or_append_def n1 n2 n3)
  show "fst (PRReviewResult_save fmt t1 r1 dir fs) = None"
    using s1 by simp
  show "fst (PRReviewResult_save fmt t2 r2 dir (snd (PRReviewResult_save fmt t1 r1 dir fs))) = None"
    using s2 by (simp add: fs1_def)
  show "fst (PRReviewResult_save fmt t3 r3 dir
           (snd (PRReviewResult_save fmt t2 r2 dir (snd (PRReviewResult_save fmt t1 r1 dir fs))))) = None"
    using s3 by (simp add: fs1_def fs2_def)
  show "snd (PRReviewResult_save fmt t3 r3 dir
           (snd (PRReviewResult_save fmt t2 r2 dir (snd (PRReviewResult_save fmt t1 r1 dir fs)))))
           (pr_index_file dir)
         = Some (Json (PDict [(''reviews'', PList [PRReviewResult_index_entry r3, PRReviewResult_index_entry r2]),
                              (''last_updated'', PStr t3)]))"
    using s3 by (simp add: fs1_def fs2_def)
qed

lemma setitem_eq_Inr: "(py_setitem (PDict d) k v = Inr r) = (r = PDict (dict_set d k v))"
  by auto

lemma get_eq_Inr: "(py_get (PDict d) k dflt = Inr v) = (v = (case map_of d k of None \<Rightarrow> dflt | Some w \<Rightarrow> w))"
  by auto

lemma autofix_new_index_shape:
  assumes "AutoFixState_new_index now a (PDict idx) = Inr v"
  shows "\<exists>q. v = PDict (dict_set (dict_set idx ''auto_fix_queue'' q) ''last_updated'' (PStr now))"
  using assms unfolding AutoFixState_new_index_def bnd_eq_Inr get_eq_Inr setitem_eq_Inr
  by auto

lemma dict_set_twice_filter:
  "filter (\<lambda>kv. fst kv \<noteq> k1 \<and> fst kv \<noteq> k2) (dict_set (dict_set idx k1 q) k2 t)
     = filter (\<lambda>kv. fst kv \<noteq> k1 \<and> fst kv \<noteq> k2) idx"
  by (simp add: filter_dict_set)

lemma dict_set_twice_map_of:
  "k \<noteq> k1 \<Longrightarrow> k \<noteq> k2 \<Longrightarrow> map_of (dict_set (dict_set idx k1 q) k2 t) k = map_of idx k"
  by (simp add: map_of_dict_set)

lemma autofix_update_index_cases:
  assumes "fs (issues_index_file dir) = Some (Json (PDict idx))"
  shows "(\<exists>e. AutoFixState_update_index now a (dir @ [''issues'']) fs = (Some e, fs)) \<or>
         (\<exists>q. AutoFixState_update_index now a (dir @ [''issues'']) fs =
            (None, fs(issues_index_file dir \<mapsto>
               Json (PDict (dict_set (dict_set idx ''auto_fix_queue'' q) ''last_updated'' (PStr now))))))"
proof (cases "AutoFixState_new_index now a (PDict idx)")
  case (Inl e)
  with assms show ?thesis by (simp add: AutoFixState_update_index_at)
next
  case (Inr v)
  from autofix_new_index_shape [OF Inr] obtain q
    where "v = PDict (dict_set (dict_set idx ''auto_fix_queue'' q) ''last_updated'' (PStr now))" ..
  with Inr assms show ?thesis
    by (intro disjI2 exI [of _ q]) (simp add: AutoFixState_update_index_at)
qed

lemma autofix_save_cases:
  assumes "fs (issues_index_file dir) = Some (Json (PDict idx))"
  shows "(\<exists>e. AutoFixState_save fmt now a dir fs =
            (Some e, fs(autofix_file fmt dir (afs_issue_number a) \<mapsto> Json (AutoFixState_to_dict a)))) \<or>
         (\<exists>q. AutoFixState_save fmt now a dir fs =
            (None, fs(autofix_file fmt dir (afs_issue_number a) \<mapsto> Json (AutoFixState_to_dict a),
                      issues_index_file dir \<mapsto>
               Json (PDict (dict_set (dict_set idx ''auto_fix_queue'' q) ''last_updated'' (PStr now))))))"
  using autofix_update_index_cases [where dir = dir and idx = idx and now = now and a = a
      and fs = "fs(autofix_file fmt dir (afs_issue_number a) \<mapsto> Json (AutoFixState_to_dict a))"]
    assms
  by (simp add: AutoFixState_save_def)

lemma autofix_save_frame:
  assumes idx: "fs (issues_index_file dir) = Some (Json (PDict idx))"
    and ok: "fst (AutoFixState_save fmt now a dir fs) = None"
  shows "\<exists>idx'. snd (AutoFixState_save fmt now a dir fs) (issues_index_file dir) = Some (Json (PDict idx')) \<and>
      filter (\<lambda>kv. fst kv \<noteq> ''auto_fix_queue'' \<and> fst kv \<noteq> ''last_updated'') idx'
        = filter (\<lambda>kv. fst kv \<noteq> ''auto_fix_queue'' \<and> fst kv \<noteq> ''last_updated'') idx \<and>
      (\<forall>k. k \<noteq> ''auto_fix_queue'' \<and> k \<noteq> ''last_updated'' \<longrightarrow> map_of idx' k = map_of idx k) \<and>
      map_of idx' ''last_updated'' = Some (PStr now)"
proof -
  from idx ok autofix_save_cases [where fs = fs and dir = dir and idx = idx and fmt = fmt
      and a = a and now = now] obtain q where
    "AutoFixState_save fmt now a dir fs =
            (None, fs(autofix_file fmt dir (afs_issue_number a) \<mapsto> Json (AutoFixState_to_dict a),
                      issues_index_file dir \<mapsto>
               Json (PDict (dict_set (dict_set idx ''auto_fix_queue'' q) ''last_updated'' (PStr now)))))"
    by auto
  then show ?thesis
    by (simp add: dict_set_twice_filter dict_set_twice_map_of map_of_dict_set)
qed

lemma autofix_save_raises_frame:
  assumes idx: "fs (issues_index_file dir) = Some (Json (PDict idx))"
    and bad: "fst (AutoFixState_save fmt now a dir fs) \<noteq> None"
  shows "snd (AutoFixState_save fmt now a dir fs) (issues_index_file dir) = fs (issues_index_file dir)"
proof -
  from idx bad autofix_save_cases [where fs = fs and dir = dir and idx = idx and fmt = fmt
      and a = a and now = now] obtain e where
    "AutoFixState_save fmt now a dir fs =
            (Some e, fs(autofix_file fmt dir (afs_issue_number a) \<mapsto> Json (AutoFixState_to_dict a)))"
    by auto
  then show ?thesis by simp
qed

lemma autofix_save_other_files:
  assumes "p \<noteq> issues_index_file dir" and "p \<noteq> autofix_file fmt dir (afs_issue_number a)"
  shows "snd (AutoFixState_save fmt now a dir fs) p = fs p"
  using assms
  by (simp add: AutoFixState_save_def AutoFixState_update_index_at split: sum.splits)

lemma autofix_save_returns:
  assumes "fs (issues_index_file dir) = Some (Json (PDict idx))"
    and "map_of idx ''auto_fix_queue'' = Some (PList rs)" and "list_all (has_ident ''issue_number'') rs"
  shows "fst (AutoFixState_save fmt now a dir fs) = None"
  using assms autofix_save_existing [where fs = fs and dir = dir and idx = idx and rs = rs
      and fmt = fmt and now = now and self = a] by simp


lemma autofix_save_returns_no_queue:
  assumes "fs (issues_index_file dir) = Some (Json (PDict idx))"
    and "map_of idx ''auto_fix_queue'' = None"
  shows "fst (AutoFixState_save fmt now a dir fs) = None"
  using assms
  by (simp add: AutoFixState_save_def AutoFixState_update_index_at AutoFixState_new_index_def
      upsert_def)

lemma autofix_entry_has_ident: "has_ident ''issue_number'' (AutoFixState_index_entry a)"
  by (simp add: has_ident_def AutoFixState_index_entry_def)

lemma autofix_entry_matches:
  "entry_matches ''issue_number'' n (AutoFixState_index_entry a) = py_eq (afs_issue_number a) n"
  by (simp add: entry_matches_def AutoFixState_index_entry_def)

lemma review_save_no_list:
  assumes "fs (pr_index_file dir) = Some (Json (PDict idx))" and "map_of idx ''reviews'' = None"
  shows "PRReviewResult_save fmt now self dir fs =
     (None, fs(review_file fmt dir (rev_pr_number self) \<mapsto> Json (PRReviewResult_to_dict self),
               pr_index_file dir \<mapsto> Json (PDict (dict_set (dict_set idx ''reviews''
                  (PList [PRReviewResult_index_entry self])) ''last_updated'' (PStr now)))))"
  using assms
  by (simp add: PRReviewResult_save_def PRReviewResult_update_index_at PRReviewResult_new_index_def
      upsert_def)

lemma autofix_save_no_list:
  assumes "fs (issues_index_file dir) = Some (Json (PDict idx))" and "map_of idx ''auto_fix_queue'' = None"
  shows "AutoFixState_save fmt now self dir fs =
     (None, fs(autofix_file fmt dir (afs_issue_number self) \<mapsto> Json (AutoFixState_to_dict self),
               issues_index_file dir \<mapsto> Json (PDict (dict_set (dict_set idx ''auto_fix_queue''
                  (PList [AutoFixState_index_entry self])) ''last_updated'' (PStr now)))))"
  using assms
  by (simp add: AutoFixState_save_def AutoFixState_update_index_at AutoFixState_new_index_def
      upsert_def)

lemma autofix_save_sequence:
  assumes nofile: "fs (issues_index_file dir) = None"
    and n1: "afs_issue_number a1 = PInt m" and n2: "afs_issue_number a2 = PInt n"
    and n3: "afs_issue_number a3 = PInt m" and mn: "m \<noteq> n"
  shows "fst (AutoFixState_save fmt t1 a1 dir fs) = None"
    and "fst (AutoFixState_save fmt t2 a2 dir (snd (AutoFixState_save fmt t1 a1 dir fs))) = None"
    and "fst (AutoFixState_save fmt t3 a3 dir
           (snd (AutoFixState_save fmt t2 a2 dir (snd (AutoFixState_save fmt t1 a1 dir fs))))) = None"
    and "snd (AutoFixState_save fmt t3 a3 dir
           (snd (AutoFixState_save fmt t2 a2 dir (snd (AutoFixState_save fmt t1 a1 dir fs)))))
           (issues_index_file dir)
         = Some (Json (PDict [(''triaged'', PList []),
                              (''auto_fix_queue'', PList [AutoFixState_index_entry a3, AutoFixState_index_entry a2]),
                              (''last_updated'', PStr t3)]))"
proof -
  define fs1 where "fs1 = snd (AutoFixState_save fmt t1 a1 dir fs)"
  define fs2 where "fs2 = snd (AutoFixState_save fmt t2 a2 dir fs1)"
  have s1: "AutoFixState_save fmt t1 a1 dir fs =
     (None, fs(autofix_file fmt dir (afs_issue_number a1) \<mapsto> Json (AutoFixState_to_dict a1),
               issues_index_file dir \<mapsto> Json (PDict [(''triaged'', PList []),
                  (''auto_fix_queue'', PList [AutoFixState_index_entry a1]),
                  (''last_updated'', PStr t1)])))"
    using nofile by (rule autofix_save_fresh)
  then have i1: "fs1 (issues_index_file dir) =
      Some (Json (PDict [(''triaged'', PList []), (''auto_fix_queue'', PList [AutoFixState_index_entry a1]),
                         (''last_updated'', PStr t1)]))"
    by (simp add: fs1_def)
  have s2: "AutoFixState_save fmt t2 a2 dir fs1 =
     (None, fs1(autofix_file fmt dir (afs_issue_number a2) \<mapsto> Json (AutoFixState_to_dict a2),
               issues_index_file dir \<mapsto> Json (PDict
                  [(''triaged'', PList []),
                   (''auto_fix_queue'', PList [AutoFixState_index_entry a1, AutoFixState_index_entry a2]),
                   (''last_updated'', PStr t2)])))"
    using autofix_save_existing [where fs = fs1 and dir = dir
        and idx = "[(''triaged'', PList []), (''auto_fix_queue'', PList [AutoFixState_index_entry a1]),
                    (''last_updated'', PStr t1)]"
        and rs = "[AutoFixState_index_entry a1]" and fmt = fmt and now = t2 and self = a2] mn
    by (simp add: i1 autofix_entry_has_ident autofix_entry_matches replace_or_append_def n1 n2)
  then have i2: "fs2 (issues_index_file dir) =
      Some (Json (PDict [(''triaged'', PList []),
                         (''auto_fix_queue'', PList [AutoFixState_index_entry a1, AutoFixState_index_entry a2]),
                         (''last_updated'', PStr t2)]))"
    by (simp add: fs2_def)
  have s3: "AutoFixState_save fmt t3 a3 dir fs2 =
     (None, fs2(autofix_file fmt dir (afs_issue_number a3) \<mapsto> Json (AutoFixState_to_dict a3),
               issues_index_file dir \<mapsto> Json (PDict
                  [(''triaged'', PList []),
                   (''auto_fix_queue'', PList [AutoFixState_index_entry a3, AutoFixState_index_entry a2]),
                   (''last_updated'', PStr t3)])))"
    using autofix_save_existing [where fs = fs2 and dir = dir
        and idx = "[(''triaged'', PList []),
                    (''auto_fix_queue'', PList [AutoFixState_index_entry a1, AutoFixState_index_entry a2]),
                    (''last_updated'', PStr t2)]"
        and rs = "[AutoFixState_index_entry a1, AutoFixState_index_entry a2]"
        and fmt = fmt and now = t3 and self = a3] mn
    by (simp add: i2 autofix_entry_has_ident autofix_entry_matches replace_or_append_def n1 n2 n3)
  show "fst (AutoFixState_save fmt t1 a1 dir fs) = None"
    using s1 by simp
  show "fst (AutoFixState_save fmt t2 a2 dir (snd (AutoFixState_save fmt t1 a1 dir fs))) = None"
    using s2 by (simp add: fs1_def)
  show "fst (AutoFixState_save fmt t3 a3 dir
           (snd (AutoFixState_save fmt t2 a2 dir (snd (AutoFixState_save fmt t1 a1 dir fs))))) = None"
    using s3 by (simp add: fs1_def fs2_def)
  show "snd (AutoFixState_save fmt t3 a3 dir
           (snd (AutoFixState_save fmt t2 a2 dir (snd (AutoFixState_save fmt t1 a1 dir fs)))))
           (issues_index_file dir)
         = Some (Json (PDict [(''triaged'', PList []),
                              (''auto_fix_queue'', PList [AutoFixState_index_entry a3, AutoFixState_index_entry a2]),
                              (''last_updated'', PStr t3)]))"
    using s3 by (simp add: fs1_def fs2_def)
qed

section \<open>Properties\<close>

text \<open>
  Claim C1. For each of the four record types, decoding the encoding of a record gives the
  record back: \<^verbatim>\<open>from_dict(to_dict(x))\<close> returns, and every field of the result, the nested
  findings, the enum fields, the fields left at \<^verbatim>\<open>None\<close> and the timestamps included, is
  the field of \<open>x\<close>. The clock readings \<open>now\<close>, \<open>nowc\<close>, \<open>nowu\<close> that \<^verbatim>\<open>from_dict\<close>
  takes for its timestamp defaults do not show in the result.
\<close>

theorem C1_roundtrip:
  "PRReviewFinding_from_dict (PRReviewFinding_to_dict f) = Inr f \<and>
   PRReviewResult_from_dict now (PRReviewResult_to_dict r) = Inr r \<and>
   TriageResult_from_dict now (TriageResult_to_dict t) = Inr t \<and>
   AutoFixState_from_dict nowc nowu (AutoFixState_to_dict a) = Inr a"
  by (simp add: finding_roundtrip review_roundtrip triage_roundtrip autofix_roundtrip)

theorem C1_roundtrip_witness:
  "PRReviewFinding_from_dict (PRReviewFinding_to_dict example_finding) = Inr example_finding \<and>
   PRReviewResult_from_dict ''2026-02-02T09:00:00'' (PRReviewResult_to_dict (example_review 1 ''approve''))
     = Inr (example_review 1 ''approve'') \<and>
   TriageResult_from_dict ''2026-02-02T09:00:00'' (TriageResult_to_dict example_triage) = Inr example_triage \<and>
   AutoFixState_from_dict ''2026-02-02T09:00:00'' ''2026-02-02T09:00:01''
     (AutoFixState_to_dict example_autofix) = Inr example_autofix"
  by (rule C1_roundtrip)

text \<open>
  Claim C2. Whatever the token and the bot token are, \<^verbatim>\<open>to_dict\<close> holds the fixed
  placeholder under \<^verbatim>\<open>"token"\<close> and the placeholder or \<^verbatim>\<open>None\<close> under \<^verbatim>\<open>"bot_token"\<close>, and the
  two secrets reach its result only through the truth value of the bot token. The dictionary
  \<^verbatim>\<open>save_settings\<close> writes has neither key, so \<^verbatim>\<open>save_settings\<close> leaves the same file system
  behind for two configurations that differ only in their secrets.
\<close>

theorem C2_secrets_not_written:
  "py_getitem (GitHubRunnerConfig_to_dict c) ''token'' = Inr (PStr ''***'') \<and>
   py_getitem (GitHubRunnerConfig_to_dict c) ''bot_token''
     = Inr (if py_truthy (cfg_bot_token c) then PStr ''***'' else PNone) \<and>
   GitHubRunnerConfig_to_dict (c\<lparr>cfg_token := t, cfg_bot_token := b\<rparr>)
     = GitHubRunnerConfig_to_dict (c\<lparr>cfg_bot_token := PBool (py_truthy b)\<rparr>) \<and>
   (\<exists>kvs. settings_written c = PDict kvs \<and> ''token'' \<notin> fst ` set kvs \<and> ''bot_token'' \<notin> fst ` set kvs) \<and>
   settings_written (c\<lparr>cfg_token := t, cfg_bot_token := b\<rparr>) = settings_written c \<and>
   save_settings (c\<lparr>cfg_token := t, cfg_bot_token := b\<rparr>) github_dir fs = save_settings c github_dir fs \<and>
   snd (save_settings c github_dir fs) (config_file github_dir) = Some (Json (settings_written c))"
  by (simp add: GitHubRunnerConfig_to_dict_def settings_written_def save_settings_def dict_pop_def)

theorem C2_secrets_not_written_witness:
  "save_settings (default_config (PStr ''ghp_secret'') (PStr ''o/r'') (PStr ''ghp_bot'')) [''gh''] Map.empty
     = save_settings (default_config (PStr ''other'') (PStr ''o/r'') PNone) [''gh''] Map.empty"
  using C2_secrets_not_written [where c = "default_config (PStr ''other'') (PStr ''o/r'') PNone"
      and t = "PStr ''ghp_secret''" and b = "PStr ''ghp_bot''" and github_dir = "[''gh'']"
      and fs = Map.empty]
  by (simp add: default_config_def)

text \<open>
  Claim C4. For each of the three record types with a \<^verbatim>\<open>load\<close>: when the file of the
  identifier does not exist, \<^verbatim>\<open>load\<close> returns \<^verbatim>\<open>None\<close> and raises nothing; when the file
  exists, \<^verbatim>\<open>load\<close> never returns \<^verbatim>\<open>None\<close>: text that is not JSON raises the decoding
  error of \<^verbatim>\<open>json.load\<close>, a document that \<^verbatim>\<open>from_dict\<close> rejects raises the error of
  \<^verbatim>\<open>from_dict\<close>, and a document that \<^verbatim>\<open>from_dict\<close> accepts is returned decoded.
\<close>

theorem C4_load_absent_or_failure:
  "(fs (review_file fmt dir n) = None \<longrightarrow> PRReviewResult_load fmt now dir n fs = Inr None) \<and>
   (fs (review_file fmt dir n) = Some c \<longrightarrow> PRReviewResult_load fmt now dir n fs \<noteq> Inr None) \<and>
   (fs (review_file fmt dir n) = Some Malformed \<longrightarrow>
      PRReviewResult_load fmt now dir n fs = Inl JSONDecodeError) \<and>
   (fs (review_file fmt dir n) = Some (Json d) \<and> PRReviewResult_from_dict now d = Inl e \<longrightarrow>
      PRReviewResult_load fmt now dir n fs = Inl e) \<and>
   (fs (review_file fmt dir n) = Some (Json d) \<and> PRReviewResult_from_dict now d = Inr r \<longrightarrow>
      PRReviewResult_load fmt now dir n fs = Inr (Some r)) \<and>
   (fs (triage_file fmt dir n) = None \<longrightarrow> TriageResult_load fmt now dir n fs = Inr None) \<and>
   (fs (triage_file fmt dir n) = Some c \<longrightarrow> TriageResult_load fmt now dir n fs \<noteq> Inr None) \<and>
   (fs (triage_file fmt dir n) = Some Malformed \<longrightarrow>
      TriageResult_load fmt now dir n fs = Inl JSONDecodeError) \<and>
   (fs (triage_file fmt dir n) = Some (Json d) \<and> TriageResult_from_dict now d = Inl e \<longrightarrow>
      TriageResult_load fmt now dir n fs = Inl e) \<and>
   (fs (triage_file fmt dir n) = Some (Json d) \<and> TriageResult_from_dict now d = Inr t \<longrightarrow>
      TriageResult_load fmt now dir n fs = Inr (Some t)) \<and>
   (fs (autofix_file fmt dir n) = None \<longrightarrow> AutoFixState_load fmt nowc nowu dir n fs = Inr None) \<and>
   (fs (autofix_file fmt dir n) = Some c \<longrightarrow> AutoFixState_load fmt nowc nowu dir n fs \<noteq> Inr None) \<and>
   (fs (autofix_file fmt dir n) = Some Malformed \<longrightarrow>
      AutoFixState_load fmt nowc nowu dir n fs = Inl JSONDecodeError) \<and>
   (fs (autofix_file fmt dir n) = Some (Json d) \<and> AutoFixState_from_dict nowc nowu d = Inl e \<longrightarrow>
      AutoFixState_load fmt nowc nowu dir n fs = Inl e) \<and>
   (fs (autofix_file fmt dir n) = Some (Json d) \<and> AutoFixState_from_dict nowc nowu d = Inr a \<longrightarrow>
      AutoFixState_load fmt nowc nowu dir n fs = Inr (Some a))"
  unfolding PRReviewResult_load_def TriageResult_load_def AutoFixState_load_def
  by (intro conjI impI; (elim conjE)?; simp only: option.case load_results; simp add: load_results)


theorem C4_load_absent_or_failure_witness:
  "TriageResult_load format_int ''2026-03-03T08:00:00'' [''gh''] (PInt 999) Map.empty = Inr None \<and>
   PRReviewResult_load format_int ''2026-03-03T08:00:00'' [''gh''] (PInt 5)
     (Map.empty([''gh'', ''pr'', ''review_5.json''] \<mapsto> Malformed)) = Inl JSONDecodeError \<and>
   AutoFixState_load format_int ''2026-03-03T08:00:00'' ''2026-03-03T08:00:01'' [''gh''] (PInt 42)
     (Map.empty([''gh'', ''issues'', ''autofix_42.json''] \<mapsto> Json (PDict [(''issue_number'', PInt 42)])))
     = Inl (KeyError ''issue_url'')"
proof -
  have a: "TriageResult_load format_int ''2026-03-03T08:00:00'' [''gh''] (PInt 999) Map.empty = Inr None"
    using C4_load_absent_or_failure [where fs = Map.empty and fmt = format_int and dir = "[''gh'']"
        and n = "PInt 999" and now = "''2026-03-03T08:00:00''"]
    by simp
  have b: "PRReviewResult_load format_int ''2026-03-03T08:00:00'' [''gh''] (PInt 5)
     (Map.empty([''gh'', ''pr'', ''review_5.json''] \<mapsto> Malformed)) = Inl JSONDecodeError"
    using C4_load_absent_or_failure [where fs = "Map.empty([''gh'', ''pr'', ''review_5.json''] \<mapsto> Malformed)"
        and fmt = format_int and dir = "[''gh'']" and n = "PInt 5" and now = "''2026-03-03T08:00:00''"]
    by (simp add: review_file_def)
  have c: "AutoFixState_load format_int ''2026-03-03T08:00:00'' ''2026-03-03T08:00:01'' [''gh''] (PInt 42)
     (Map.empty([''gh'', ''issues'', ''autofix_42.json''] \<mapsto> Json (PDict [(''issue_number'', PInt 42)])))
     = Inl (KeyError ''issue_url'')"
    using C4_load_absent_or_failure [where
        fs = "Map.empty([''gh'', ''issues'', ''autofix_42.json''] \<mapsto> Json (PDict [(''issue_number'', PInt 42)]))"
        and fmt = format_int and dir = "[''gh'']" and n = "PInt 42"
        and nowc = "''2026-03-03T08:00:00''" and nowu = "''2026-03-03T08:00:01''"
        and d = "PDict [(''issue_number'', PInt 42)]" and e = "KeyError ''issue_url''"]
    by (simp add: autofix_file_def AutoFixState_from_dict_def)
  from a b c show ?thesis by simp
qed

text \<open>
  Claim C7. \<^verbatim>\<open>load_settings\<close> takes the token, the repository and the bot token from its
  arguments, whatever \<^verbatim>\<open>config.json\<close> holds: every configuration it returns has them. When
  \<^verbatim>\<open>config.json\<close> does not exist it returns, and every other field has its default. When
  \<^verbatim>\<open>config.json\<close> holds a JSON object it returns, and every other field is the value the
  object gives for its key, or the default when the object has no such key. (A file that is
  not JSON, or JSON that is not an object, makes \<^verbatim>\<open>load_settings\<close> raise.)
\<close>

theorem C7_load_settings:
  "(load_settings dir t r b fs = Inr c \<longrightarrow> cfg_token c = t \<and> cfg_repo c = r \<and> cfg_bot_token c = b) \<and>
   (fs (config_file dir) = None \<longrightarrow> load_settings dir t r b fs = Inr (default_config t r b)) \<and>
   (fs (config_file dir) = Some (Json (PDict kvs)) \<longrightarrow>
      load_settings dir t r b fs = Inr (config_of_settings t r b kvs)) \<and>
   cfg_token (config_of_settings t r b kvs) = t \<and>
   cfg_repo (config_of_settings t r b kvs) = r \<and>
   cfg_bot_token (config_of_settings t r b kvs) = b \<and>
   cfg_auto_fix_enabled (config_of_settings t r b kvs)
     = (case map_of kvs ''auto_fix_enabled'' of None \<Rightarrow> PBool False | Some v \<Rightarrow> v) \<and>
   cfg_auto_fix_labels (config_of_settings t r b kvs)
     = (case map_of kvs ''auto_fix_labels'' of None \<Rightarrow> PList [PStr ''auto-fix''] | Some v \<Rightarrow> v) \<and>
   cfg_require_human_approval (config_of_settings t r b kvs)
     = (case map_of kvs ''require_human_approval'' of None \<Rightarrow> PBool True | Some v \<Rightarrow> v) \<and>
   cfg_triage_enabled (config_of_settings t r b kvs)
     = (case map_of kvs ''triage_enabled'' of None \<Rightarrow> PBool False | Some v \<Rightarrow> v) \<and>
   cfg_duplicate_threshold (config_of_settings t r b kvs)
     = (case map_of kvs ''duplicate_threshold'' of None \<Rightarrow> float_0_80 | Some v \<Rightarrow> v) \<and>
   cfg_spam_threshold (config_of_settings t r b kvs)
     = (case map_of kvs ''spam_threshold'' of None \<Rightarrow> float_0_75 | Some v \<Rightarrow> v) \<and>
   cfg_feature_creep_threshold (config_of_settings t r b kvs)
     = (case map_of kvs ''feature_creep_threshold'' of None \<Rightarrow> float_0_70 | Some v \<Rightarrow> v) \<and>
   cfg_enable_triage_comments (config_of_settings t r b kvs)
     = (case map_of kvs ''enable_triage_comments'' of None \<Rightarrow> PBool False | Some v \<Rightarrow> v) \<and>
   cfg_pr_review_enabled (config_of_settings t r b kvs)
     = (case map_of kvs ''pr_review_enabled'' of None \<Rightarrow> PBool False | Some v \<Rightarrow> v) \<and>
   cfg_auto_post_reviews (config_of_settings t r b kvs)
     = (case map_of kvs ''auto_post_reviews'' of None \<Rightarrow> PBool False | Some v \<Rightarrow> v) \<and>
   cfg_allow_fix_commits (config_of_settings t r b kvs)
     = (case map_of kvs ''allow_fix_commits'' of None \<Rightarrow> PBool True | Some v \<Rightarrow> v) \<and>
   cfg_model (config_of_settings t r b kvs)
     = (case map_of kvs ''model'' of None \<Rightarrow> PStr ''claude-sonnet-4-20250514'' | Some v \<Rightarrow> v) \<and>
   cfg_thinking_level (config_of_settings t r b kvs)
     = (case map_of kvs ''thinking_level'' of None \<Rightarrow> PStr ''medium'' | Some v \<Rightarrow> v)"
  by (simp add: load_settings_absent load_settings_object load_settings_secrets
      config_of_settings_def setting_def)

theorem C7_load_settings_witness:
  "load_settings [''gh''] (PStr ''ghp_secret'') (PStr ''o/r'') PNone Map.empty
     = Inr (default_config (PStr ''ghp_secret'') (PStr ''o/r'') PNone) \<and>
   load_settings [''gh''] (PStr ''ghp_secret'') (PStr ''o/r'') PNone
     (Map.empty([''gh'', ''config.json''] \<mapsto>
        Json (PDict [(''token'', PStr ''stale''), (''repo'', PStr ''x/y''), (''triage_enabled'', PBool True)])))
     = Inr ((default_config (PStr ''ghp_secret'') (PStr ''o/r'') PNone)\<lparr>cfg_triage_enabled := PBool True\<rparr>)"
proof -
  have a: "load_settings [''gh''] (PStr ''ghp_secret'') (PStr ''o/r'') PNone Map.empty
     = Inr (default_config (PStr ''ghp_secret'') (PStr ''o/r'') PNone)"
    using C7_load_settings [where fs = Map.empty and dir = "[''gh'']" and t = "PStr ''ghp_secret''"
        and r = "PStr ''o/r''" and b = PNone]
    by simp
  have b: "load_settings [''gh''] (PStr ''ghp_secret'') (PStr ''o/r'') PNone
     (Map.empty([''gh'', ''config.json''] \<mapsto>
        Json (PDict [(''token'', PStr ''stale''), (''repo'', PStr ''x/y''), (''triage_enabled'', PBool True)])))
     = Inr ((default_config (PStr ''ghp_secret'') (PStr ''o/r'') PNone)\<lparr>cfg_triage_enabled := PBool True\<rparr>)"
    using C7_load_settings [where dir = "[''gh'']" and t = "PStr ''ghp_secret''"
        and r = "PStr ''o/r''" and b = PNone
        and kvs = "[(''token'', PStr ''stale''), (''repo'', PStr ''x/y''), (''triage_enabled'', PBool True)]"
        and fs = "Map.empty([''gh'', ''config.json''] \<mapsto>
        Json (PDict [(''token'', PStr ''stale''), (''repo'', PStr ''x/y''), (''triage_enabled'', PBool True)]))"]
    by (simp add: config_file_def config_of_settings_def setting_def default_config_def)
  from a b show ?thesis by simp
qed

text \<open>
  Claim C8, as the module has it. \<^verbatim>\<open>update_status\<close> sets the status to the one given and
  \<^verbatim>\<open>updated_at\<close> to the reading of the clock, and changes no other field. The new
  \<^verbatim>\<open>updated_at\<close> is at least the old one when the old one is a string that is not later than
  the reading of the clock; the method compares nothing, so a state whose \<^verbatim>\<open>updated_at\<close>
  lies ahead of the clock gets an earlier one.
\<close>

theorem C8_update_status:
  "afs_status (update_status now v s) = v \<and>
   afs_updated_at (update_status now v s) = PStr now \<and>
   afs_issue_number (update_status now v s) = afs_issue_number s \<and>
   afs_issue_url (update_status now v s) = afs_issue_url s \<and>
   afs_repo (update_status now v s) = afs_repo s \<and>
   afs_spec_id (update_status now v s) = afs_spec_id s \<and>
   afs_spec_dir (update_status now v s) = afs_spec_dir s \<and>
   afs_pr_number (update_status now v s) = afs_pr_number s \<and>
   afs_pr_url (update_status now v s) = afs_pr_url s \<and>
   afs_bot_comments (update_status now v s) = afs_bot_comments s \<and>
   afs_error (update_status now v s) = afs_error s \<and>
   afs_created_at (update_status now v s) = afs_created_at s \<and>
   timestamp_le (afs_updated_at s) (afs_updated_at (update_status now v s))
     = timestamp_le (afs_updated_at s) (PStr now) \<and>
   (afs_updated_at s = PStr old \<and> old \<le> now \<longrightarrow>
      timestamp_le (afs_updated_at s) (afs_updated_at (update_status now v s)))"
  by (simp add: update_status_def)

theorem C8_update_status_witness:
  "afs_status (update_status ''2026-01-01T10:05:00'' BUILDING example_autofix) = BUILDING \<and>
   afs_updated_at (update_status ''2026-01-01T10:05:00'' BUILDING example_autofix)
     = PStr ''2026-01-01T10:05:00'' \<and>
   timestamp_le (afs_updated_at example_autofix)
     (afs_updated_at (update_status ''2026-01-01T10:05:00'' BUILDING example_autofix))"
  using C8_update_status [where s = example_autofix and now = "''2026-01-01T10:05:00''" and v = BUILDING
      and old = "''2026-01-01T10:00:00''"]
  by (simp add: example_autofix_def)

theorem C8_update_status_counterexample:
  "\<not> timestamp_le
      (afs_updated_at (example_autofix\<lparr>afs_updated_at := PStr ''2030-01-01T00:00:00''\<rparr>))
      (afs_updated_at (update_status ''2026-11-04T12:00:00'' BUILDING
         (example_autofix\<lparr>afs_updated_at := PStr ''2030-01-01T00:00:00''\<rparr>)))"
  by (simp add: update_status_def)

text \<open>
  Claim C9, as the module has it. Neither the dataclass nor \<^verbatim>\<open>from_dict\<close> relates
  \<^verbatim>\<open>end_line\<close> to \<^verbatim>\<open>line\<close>: \<^verbatim>\<open>from_dict\<close> copies \<^verbatim>\<open>line\<close> from the mapping and
  \<^verbatim>\<open>end_line\<close> from the mapping or \<^verbatim>\<open>None\<close> when the key is absent. So the finding it returns
  satisfies the invariant exactly when the two values of the mapping do, and always when the
  mapping has no \<^verbatim>\<open>end_line\<close>.
\<close>

theorem C9_finding_lines_copied:
  "(PRReviewFinding_from_dict (PDict d) = Inr f \<longrightarrow>
      map_of d ''line'' = Some (fnd_line f) \<and>
      fnd_end_line f = (case map_of d ''end_line'' of None \<Rightarrow> PNone | Some v \<Rightarrow> v) \<and>
      finding_invariant f
        = line_range_ok (the (map_of d ''line''))
            (case map_of d ''end_line'' of None \<Rightarrow> PNone | Some v \<Rightarrow> v)) \<and>
   (PRReviewFinding_from_dict (PDict d) = Inr f \<and> map_of d ''end_line'' = None \<longrightarrow>
      finding_invariant f)"
proof -
  have "map_of d ''line'' = Some (fnd_line f) \<and>
      fnd_end_line f = (case map_of d ''end_line'' of None \<Rightarrow> PNone | Some v \<Rightarrow> v) \<and>
      finding_invariant f
        = line_range_ok (the (map_of d ''line''))
            (case map_of d ''end_line'' of None \<Rightarrow> PNone | Some v \<Rightarrow> v)"
    if a: "PRReviewFinding_from_dict (PDict d) = Inr f"
    using finding_decoded_lines [OF a] by (simp add: finding_invariant_def)
  moreover have "finding_invariant f"
    if a: "PRReviewFinding_from_dict (PDict d) = Inr f" and b: "map_of d ''end_line'' = None"
    using finding_decoded_lines(2) [OF a] b by (simp add: finding_invariant_def)
  ultimately show ?thesis by blast
qed

theorem C9_finding_lines_copied_witness:
  "PRReviewFinding_from_dict (PDict (example_finding_dict @ [(''end_line'', PInt 12)]))
     = Inr (example_finding\<lparr>fnd_end_line := PInt 12\<rparr>) \<and>
   finding_invariant (example_finding\<lparr>fnd_end_line := PInt 12\<rparr>) \<and>
   PRReviewFinding_from_dict (PDict example_finding_dict) = Inr example_finding \<and>
   finding_invariant example_finding"
proof -
  have a: "PRReviewFinding_from_dict (PDict (example_finding_dict @ [(''end_line'', PInt 12)]))
     = Inr (example_finding\<lparr>fnd_end_line := PInt 12\<rparr>)"
    by (simp add: PRReviewFinding_from_dict_def example_finding_dict_def example_finding_def
        ReviewSeverity_of_def ReviewCategory_of_def)
  have b: "PRReviewFinding_from_dict (PDict example_finding_dict) = Inr example_finding"
    by (simp add: PRReviewFinding_from_dict_def example_finding_dict_def example_finding_def
        ReviewSeverity_of_def ReviewCategory_of_def)
  have c: "finding_invariant (example_finding\<lparr>fnd_end_line := PInt 12\<rparr>)"
    using a C9_finding_lines_copied [where d = "example_finding_dict @ [(''end_line'', PInt 12)]"
        and f = "example_finding\<lparr>fnd_end_line := PInt 12\<rparr>"]
    by (simp add: example_finding_dict_def)
  have d: "finding_invariant example_finding"
    using b C9_finding_lines_copied [where d = example_finding_dict and f = example_finding]
    by (simp add: example_finding_dict_def)
  from a b c d show ?thesis by simp
qed

theorem C9_invariant_counterexample:
  "PRReviewFinding_from_dict (PDict (example_finding_dict @ [(''end_line'', PInt 5)]))
     = Inr (example_finding\<lparr>fnd_end_line := PInt 5\<rparr>) \<and>
   \<not> finding_invariant (example_finding\<lparr>fnd_end_line := PInt 5\<rparr>)"
  by (simp add: PRReviewFinding_from_dict_def example_finding_dict_def example_finding_def
      ReviewSeverity_of_def ReviewCategory_of_def finding_invariant_def)

text \<open>
  Claim C5, as the module has it. Decoding a mapping that lacks a required key always fails:
  \<^verbatim>\<open>from_dict\<close> neither returns a record nor puts a default in the place of the key. The
  arguments of the constructor are evaluated in order, so the failure is the first one met: it is
  the \<^verbatim>\<open>KeyError\<close> that names the first required key the mapping lacks, provided the enum
  fields read before that key hold values of their vocabulary; an enum field read before it that
  holds another value raises \<^verbatim>\<open>ValueError\<close> first.
\<close>

theorem C5_first_missing_key:
  "(first_missing PRReviewFinding_required d = Some k \<and>
    (k \<notin> {''id'', ''severity''} \<longrightarrow> enum_field_ok ReviewSeverity_vocabulary d ''severity'') \<and>
    (k \<notin> {''id'', ''severity'', ''category''} \<longrightarrow> enum_field_ok ReviewCategory_vocabulary d ''category'')
    \<longrightarrow> PRReviewFinding_from_dict (PDict d) = Inl (KeyError k)) \<and>
   (first_missing PRReviewResult_required d = Some k
    \<longrightarrow> PRReviewResult_from_dict now (PDict d) = Inl (KeyError k)) \<and>
   (first_missing TriageResult_required d = Some k \<and>
    (k = ''confidence'' \<longrightarrow> enum_field_ok TriageCategory_vocabulary d ''category'')
    \<longrightarrow> TriageResult_from_dict now (PDict d) = Inl (KeyError k)) \<and>
   (first_missing AutoFixState_required d = Some k
    \<longrightarrow> AutoFixState_from_dict nowc nowu (PDict d) = Inl (KeyError k)) \<and>
   (k \<in> set PRReviewFinding_required \<and> map_of d k = None
    \<longrightarrow> (\<exists>e. PRReviewFinding_from_dict (PDict d) = Inl e)) \<and>
   (k \<in> set PRReviewResult_required \<and> map_of d k = None
    \<longrightarrow> (\<exists>e. PRReviewResult_from_dict now (PDict d) = Inl e)) \<and>
   (k \<in> set TriageResult_required \<and> map_of d k = None
    \<longrightarrow> (\<exists>e. TriageResult_from_dict now (PDict d) = Inl e)) \<and>
   (k \<in> set AutoFixState_required \<and> map_of d k = None
    \<longrightarrow> (\<exists>e. AutoFixState_from_dict nowc nowu (PDict d) = Inl e))"
  apply (intro conjI impI; (elim conjE)?)
         apply (erule (2) fm_finding)
        apply (erule fm_review)
       apply (erule (1) fm_triage)
      apply (erule fm_autofix)
     apply (erule (1) finding_missing_fails)
    apply (erule (1) review_missing_fails)
   apply (erule (1) triage_missing_fails)
  apply (erule (1) autofix_missing_fails)
  done


theorem C5_first_missing_key_witness:
  "PRReviewFinding_from_dict (PDict
      [(''id'', PStr ''F1''), (''severity'', PStr ''high''), (''category'', PStr ''security''),
       (''description'', PStr ''The handler trusts the header''), (''file'', PStr ''app/main.py''),
       (''line'', PInt 10)])
     = Inl (KeyError ''title'') \<and>
   TriageResult_from_dict ''2026-03-03T08:00:00'' (PDict
      [(''issue_number'', PInt 7), (''repo'', PStr ''o/r''), (''category'', PStr ''bug'')])
     = Inl (KeyError ''confidence'')"
proof -
  have a: "PRReviewFinding_from_dict (PDict
      [(''id'', PStr ''F1''), (''severity'', PStr ''high''), (''category'', PStr ''security''),
       (''description'', PStr ''The handler trusts the header''), (''file'', PStr ''app/main.py''),
       (''line'', PInt 10)])
     = Inl (KeyError ''title'')"
    using C5_first_missing_key [where k = "''title''" and d =
      "[(''id'', PStr ''F1''), (''severity'', PStr ''high''), (''category'', PStr ''security''),
       (''description'', PStr ''The handler trusts the header''), (''file'', PStr ''app/main.py''),
       (''line'', PInt 10)]", THEN conjunct1]
    by (simp add: first_missing_def PRReviewFinding_required_def enum_field_ok_def
        ReviewSeverity_vocabulary_def ReviewCategory_vocabulary_def)
  have b: "TriageResult_from_dict ''2026-03-03T08:00:00'' (PDict
      [(''issue_number'', PInt 7), (''repo'', PStr ''o/r''), (''category'', PStr ''bug'')])
     = Inl (KeyError ''confidence'')"
    using C5_first_missing_key [where k = "''confidence''" and now = "''2026-03-03T08:00:00''" and d =
      "[(''issue_number'', PInt 7), (''repo'', PStr ''o/r''), (''category'', PStr ''bug'')]",
      THEN conjunct2, THEN conjunct2, THEN conjunct1]
    by (simp add: first_missing_def TriageResult_required_def enum_field_ok_def
        TriageCategory_vocabulary_def)
  from a b show ?thesis by simp
qed

theorem C5_missing_field_counterexample:
  "map_of [(''id'', PStr ''F1''), (''severity'', PStr ''bogus''), (''category'', PStr ''security''),
           (''description'', PStr ''The handler trusts the header''), (''file'', PStr ''app/main.py''),
           (''line'', PInt 10)] ''title'' = None \<and>
   PRReviewFinding_from_dict (PDict
      [(''id'', PStr ''F1''), (''severity'', PStr ''bogus''), (''category'', PStr ''security''),
       (''description'', PStr ''The handler trusts the header''), (''file'', PStr ''app/main.py''),
       (''line'', PInt 10)])
     = Inl (ValueError (PStr ''bogus'') ''ReviewSeverity'') \<and>
   PRReviewFinding_from_dict (PDict
      [(''id'', PStr ''F1''), (''severity'', PStr ''bogus''), (''category'', PStr ''security''),
       (''description'', PStr ''The handler trusts the header''), (''file'', PStr ''app/main.py''),
       (''line'', PInt 10)])
     \<noteq> Inl (KeyError ''title'') \<and>
   map_of [(''id'', PStr ''F1''), (''severity'', PStr ''high''), (''category'', PStr ''security''),
           (''file'', PStr ''app/main.py''), (''line'', PInt 10)] ''description'' = None \<and>
   PRReviewFinding_from_dict (PDict
      [(''id'', PStr ''F1''), (''severity'', PStr ''high''), (''category'', PStr ''security''),
       (''file'', PStr ''app/main.py''), (''line'', PInt 10)])
     = Inl (KeyError ''title'') \<and>
   PRReviewFinding_from_dict (PDict
      [(''id'', PStr ''F1''), (''severity'', PStr ''high''), (''category'', PStr ''security''),
       (''file'', PStr ''app/main.py''), (''line'', PInt 10)])
     \<noteq> Inl (KeyError ''description'')"
  by (simp add: PRReviewFinding_from_dict_def ReviewSeverity_of_def ReviewCategory_of_def)

text \<open>
  Claim C6, as the module has it. Decoding a mapping whose enum field holds a value outside
  the vocabulary always fails: \<^verbatim>\<open>from_dict\<close> neither returns a record nor falls back to a
  default. The failure is the first one met in the order the fields are read: it is the
  \<^verbatim>\<open>ValueError\<close> of the enum constructor, which carries the rejected value and the name of the
  enum class, provided the required keys read before the field are present and the enum field
  read before it, if any, holds a value of its vocabulary; a required key missing before the
  field raises \<^verbatim>\<open>KeyError\<close> first.
\<close>

theorem C6_invalid_enum_value:
  "(map_of d ''id'' \<noteq> None \<and> map_of d ''severity'' = Some v \<and> v \<notin> set ReviewSeverity_vocabulary
    \<longrightarrow> PRReviewFinding_from_dict (PDict d) = Inl (ValueError v ''ReviewSeverity'')) \<and>
   (map_of d ''id'' \<noteq> None \<and> enum_field_ok ReviewSeverity_vocabulary d ''severity'' \<and>
    map_of d ''severity'' \<noteq> None \<and> map_of d ''category'' = Some v \<and> v \<notin> set ReviewCategory_vocabulary
    \<longrightarrow> PRReviewFinding_from_dict (PDict d) = Inl (ValueError v ''ReviewCategory'')) \<and>
   (map_of d ''issue_number'' \<noteq> None \<and> map_of d ''repo'' \<noteq> None \<and>
    map_of d ''category'' = Some v \<and> v \<notin> set TriageCategory_vocabulary
    \<longrightarrow> TriageResult_from_dict now (PDict d) = Inl (ValueError v ''TriageCategory'')) \<and>
   (map_of d ''issue_number'' \<noteq> None \<and> map_of d ''issue_url'' \<noteq> None \<and> map_of d ''repo'' \<noteq> None \<and>
    map_of d ''status'' = Some v \<and> v \<notin> set AutoFixStatus_vocabulary
    \<longrightarrow> AutoFixState_from_dict nowc nowu (PDict d) = Inl (ValueError v ''AutoFixStatus'')) \<and>
   (map_of d ''severity'' = Some v \<and> v \<notin> set ReviewSeverity_vocabulary
    \<longrightarrow> (\<exists>e. PRReviewFinding_from_dict (PDict d) = Inl e)) \<and>
   (map_of d ''category'' = Some v \<and> v \<notin> set ReviewCategory_vocabulary
    \<longrightarrow> (\<exists>e. PRReviewFinding_from_dict (PDict d) = Inl e)) \<and>
   (map_of d ''category'' = Some v \<and> v \<notin> set TriageCategory_vocabulary
    \<longrightarrow> (\<exists>e. TriageResult_from_dict now (PDict d) = Inl e)) \<and>
   (map_of d ''status'' = Some v \<and> v \<notin> set AutoFixStatus_vocabulary
    \<longrightarrow> (\<exists>e. AutoFixState_from_dict nowc nowu (PDict d) = Inl e))"
  apply (intro conjI impI; (elim conjE)?)
         apply (erule (2) finding_invalid_severity)
        apply (erule (4) finding_invalid_category)
       apply (erule (3) triage_invalid_category)
      apply (erule (4) autofix_invalid_status)
     apply (erule (1) finding_invalid_severity_fails)
    apply (erule (1) finding_invalid_category_fails)
   apply (erule (1) triage_invalid_category_fails)
  apply (erule (1) autofix_invalid_status_fails)
  done

theorem C6_invalid_enum_value_witness:
  "PRReviewFinding_from_dict (PDict
      [(''id'', PStr ''F1''), (''severity'', PStr ''urgent''), (''category'', PStr ''security''),
       (''title'', PStr ''Unchecked input''), (''description'', PStr ''The handler trusts the header''),
       (''file'', PStr ''app/main.py''), (''line'', PInt 10)])
     = Inl (ValueError (PStr ''urgent'') ''ReviewSeverity'') \<and>
   AutoFixState_from_dict ''2026-03-03T08:00:00'' ''2026-03-03T08:00:01'' (PDict
      [(''issue_number'', PInt 42), (''issue_url'', PStr ''https://x/42''), (''repo'', PStr ''o/r''),
       (''status'', PStr ''done'')])
     = Inl (ValueError (PStr ''done'') ''AutoFixStatus'')"
proof -
  have a: "PRReviewFinding_from_dict (PDict
      [(''id'', PStr ''F1''), (''severity'', PStr ''urgent''), (''category'', PStr ''security''),
       (''title'', PStr ''Unchecked input''), (''description'', PStr ''The handler trusts the header''),
       (''file'', PStr ''app/main.py''), (''line'', PInt 10)])
     = Inl (ValueError (PStr ''urgent'') ''ReviewSeverity'')"
    using C6_invalid_enum_value [where v = "PStr ''urgent''" and d =
      "[(''id'', PStr ''F1''), (''severity'', PStr ''urgent''), (''category'', PStr ''security''),
       (''title'', PStr ''Unchecked input''), (''description'', PStr ''The handler trusts the header''),
       (''file'', PStr ''app/main.py''), (''line'', PInt 10)]", THEN conjunct1]
    by (simp add: ReviewSeverity_vocabulary_def)
  have b: "AutoFixState_from_dict ''2026-03-03T08:00:00'' ''2026-03-03T08:00:01'' (PDict
      [(''issue_number'', PInt 42), (''issue_url'', PStr ''https://x/42''), (''repo'', PStr ''o/r''),
       (''status'', PStr ''done'')])
     = Inl (ValueError (PStr ''done'') ''AutoFixStatus'')"
    using C6_invalid_enum_value [where v = "PStr ''done''"
      and nowc = "''2026-03-03T08:00:00''" and nowu = "''2026-03-03T08:00:01''" and d =
      "[(''issue_number'', PInt 42), (''issue_url'', PStr ''https://x/42''), (''repo'', PStr ''o/r''),
       (''status'', PStr ''done'')]",
      THEN conjunct2, THEN conjunct2, THEN conjunct2, THEN conjunct1]
    by (simp add: AutoFixStatus_vocabulary_def)
  from a b show ?thesis by simp
qed

theorem C6_invalid_enum_counterexample:
  "map_of [(''severity'', PStr ''urgent''), (''category'', PStr ''security''),
           (''title'', PStr ''Unchecked input''), (''description'', PStr ''The handler trusts the header''),
           (''file'', PStr ''app/main.py''), (''line'', PInt 10)] ''severity'' = Some (PStr ''urgent'') \<and>
   PStr ''urgent'' \<notin> set ReviewSeverity_vocabulary \<and>
   PRReviewFinding_from_dict (PDict
      [(''severity'', PStr ''urgent''), (''category'', PStr ''security''),
       (''title'', PStr ''Unchecked input''), (''description'', PStr ''The handler trusts the header''),
       (''file'', PStr ''app/main.py''), (''line'', PInt 10)])
     = Inl (KeyError ''id'') \<and>
   PStr ''done'' \<notin> set AutoFixStatus_vocabulary \<and>
   AutoFixState_from_dict ''2026-03-03T08:00:00'' ''2026-03-03T08:00:01''
      (PDict [(''issue_number'', PInt 42), (''repo'', PStr ''o/r''), (''status'', PStr ''done'')])
     = Inl (KeyError ''issue_url'')"
  by (simp add: PRReviewFinding_from_dict_def AutoFixState_from_dict_def
      ReviewSeverity_vocabulary_def AutoFixStatus_vocabulary_def)

text \<open>
  Claim C10. When \<^verbatim>\<open>issues/index.json\<close> holds a JSON object and \<^verbatim>\<open>AutoFixState.save\<close>
  returns, the index it leaves is an object whose keys other than \<^verbatim>\<open>"auto_fix_queue"\<close> and
  \<^verbatim>\<open>"last_updated"\<close> are those of the old object, in the same order and with the same values
  (the \<^verbatim>\<open>"triaged"\<close> list and any unknown key among them), and whose \<^verbatim>\<open>"last_updated"\<close> is
  the reading of the clock. When \<^verbatim>\<open>save\<close> raises, the index file is as it was. \<^verbatim>\<open>save\<close>
  returns whenever the object has no queue or its queue is a list of entries that carry
  \<^verbatim>\<open>"issue_number"\<close>.
\<close>

theorem C10_index_other_keys_kept:
  "(fs (issues_index_file dir) = Some (Json (PDict idx)) \<and>
    fst (AutoFixState_save fmt now a dir fs) = None \<longrightarrow>
      (\<exists>idx'. snd (AutoFixState_save fmt now a dir fs) (issues_index_file dir) = Some (Json (PDict idx')) \<and>
         filter (\<lambda>kv. fst kv \<noteq> ''auto_fix_queue'' \<and> fst kv \<noteq> ''last_updated'') idx'
           = filter (\<lambda>kv. fst kv \<noteq> ''auto_fix_queue'' \<and> fst kv \<noteq> ''last_updated'') idx \<and>
         (\<forall>k. k \<noteq> ''auto_fix_queue'' \<and> k \<noteq> ''last_updated'' \<longrightarrow> map_of idx' k = map_of idx k) \<and>
         map_of idx' ''last_updated'' = Some (PStr now))) \<and>
   (fs (issues_index_file dir) = Some (Json (PDict idx)) \<and>
    fst (AutoFixState_save fmt now a dir fs) \<noteq> None \<longrightarrow>
      snd (AutoFixState_save fmt now a dir fs) (issues_index_file dir) = fs (issues_index_file dir)) \<and>
   (fs (issues_index_file dir) = Some (Json (PDict idx)) \<and>
    map_of idx ''auto_fix_queue'' = Some (PList rs) \<and> list_all (has_ident ''issue_number'') rs \<longrightarrow>
      fst (AutoFixState_save fmt now a dir fs) = None) \<and>
   (fs (issues_index_file dir) = Some (Json (PDict idx)) \<and> map_of idx ''auto_fix_queue'' = None \<longrightarrow>
      fst (AutoFixState_save fmt now a dir fs) = None)"
proof -
  have c1: "fs (issues_index_file dir) = Some (Json (PDict idx)) \<and>
    fst (AutoFixState_save fmt now a dir fs) = None \<longrightarrow>
      (\<exists>idx'. snd (AutoFixState_save fmt now a dir fs) (issues_index_file dir) = Some (Json (PDict idx')) \<and>
         filter (\<lambda>kv. fst kv \<noteq> ''auto_fix_queue'' \<and> fst kv \<noteq> ''last_updated'') idx'
           = filter (\<lambda>kv. fst kv \<noteq> ''auto_fix_queue'' \<and> fst kv \<noteq> ''last_updated'') idx \<and>
         (\<forall>k. k \<noteq> ''auto_fix_queue'' \<and> k \<noteq> ''last_updated'' \<longrightarrow> map_of idx' k = map_of idx k) \<and>
         map_of idx' ''last_updated'' = Some (PStr now))"
    by (intro impI, elim conjE) (rule autofix_save_frame)
  have c2: "fs (issues_index_file dir) = Some (Json (PDict idx)) \<and>
    fst (AutoFixState_save fmt now a dir fs) \<noteq> None \<longrightarrow>
      snd (AutoFixState_save fmt now a dir fs) (issues_index_file dir) = fs (issues_index_file dir)"
    by (intro impI, elim conjE) (rule autofix_save_raises_frame)
  have c3: "fs (issues_index_file dir) = Some (Json (PDict idx)) \<and>
    map_of idx ''auto_fix_queue'' = Some (PList rs) \<and> list_all (has_ident ''issue_number'') rs \<longrightarrow>
      fst (AutoFixState_save fmt now a dir fs) = None"
    by (intro impI, elim conjE) (rule autofix_save_returns)
  have c4: "fs (issues_index_file dir) = Some (Json (PDict idx)) \<and> map_of idx ''auto_fix_queue'' = None \<longrightarrow>
      fst (AutoFixState_save fmt now a dir fs) = None"
    by (intro impI, elim conjE) (rule autofix_save_returns_no_queue)
  show ?thesis
    by (intro conjI c1 c2 c3 c4)
qed

theorem C10_index_other_keys_kept_witness:
  "fst (AutoFixState_save format_int ''2026-01-01T10:05:00'' example_autofix [''gh'']
     (Map.empty([''gh'', ''issues'', ''index.json''] \<mapsto> Json (PDict
        [(''triaged'', PList [PInt 5]), (''notes'', PStr ''keep''), (''auto_fix_queue'', PList []),
         (''last_updated'', PStr ''2026-01-01T09:00:00'')])))) = None \<and>
   (\<exists>idx'. snd (AutoFixState_save format_int ''2026-01-01T10:05:00'' example_autofix [''gh'']
     (Map.empty([''gh'', ''issues'', ''index.json''] \<mapsto> Json (PDict
        [(''triaged'', PList [PInt 5]), (''notes'', PStr ''keep''), (''auto_fix_queue'', PList []),
         (''last_updated'', PStr ''2026-01-01T09:00:00'')])))) [''gh'', ''issues'', ''index.json'']
       = Some (Json (PDict idx')) \<and>
     filter (\<lambda>kv. fst kv \<noteq> ''auto_fix_queue'' \<and> fst kv \<noteq> ''last_updated'') idx'
       = [(''triaged'', PList [PInt 5]), (''notes'', PStr ''keep'')] \<and>
     map_of idx' ''last_updated'' = Some (PStr ''2026-01-01T10:05:00''))"
proof -
  let ?idx = "[(''triaged'', PList [PInt 5]), (''notes'', PStr ''keep''), (''auto_fix_queue'', PList []),
         (''last_updated'', PStr ''2026-01-01T09:00:00'')]"
  let ?fs = "Map.empty([''gh'', ''issues'', ''index.json''] \<mapsto> Json (PDict ?idx))"
  note t = C10_index_other_keys_kept [where fs = ?fs and dir = "[''gh'']" and idx = ?idx
      and fmt = format_int and now = "''2026-01-01T10:05:00''" and a = example_autofix and rs = "[]"]
  have ok: "fst (AutoFixState_save format_int ''2026-01-01T10:05:00'' example_autofix [''gh''] ?fs) = None"
    using t [THEN conjunct2, THEN conjunct2, THEN conjunct1]
    by (simp add: issues_index_file_def)
  have "\<exists>idx'. snd (AutoFixState_save format_int ''2026-01-01T10:05:00'' example_autofix [''gh''] ?fs)
          (issues_index_file [''gh'']) = Some (Json (PDict idx')) \<and>
         filter (\<lambda>kv. fst kv \<noteq> ''auto_fix_queue'' \<and> fst kv \<noteq> ''last_updated'') idx'
           = filter (\<lambda>kv. fst kv \<noteq> ''auto_fix_queue'' \<and> fst kv \<noteq> ''last_updated'') ?idx \<and>
         (\<forall>k. k \<noteq> ''auto_fix_queue'' \<and> k \<noteq> ''last_updated'' \<longrightarrow> map_of idx' k = map_of ?idx k) \<and>
         map_of idx' ''last_updated'' = Some (PStr ''2026-01-01T10:05:00'')"
    using t [THEN conjunct1] ok
    by (simp add: issues_index_file_def)
  then obtain idx' where
    "snd (AutoFixState_save format_int ''2026-01-01T10:05:00'' example_autofix [''gh''] ?fs)
          (issues_index_file [''gh'']) = Some (Json (PDict idx'))"
    "filter (\<lambda>kv. fst kv \<noteq> ''auto_fix_queue'' \<and> fst kv \<noteq> ''last_updated'') idx'
           = filter (\<lambda>kv. fst kv \<noteq> ''auto_fix_queue'' \<and> fst kv \<noteq> ''last_updated'') ?idx"
    "map_of idx' ''last_updated'' = Some (PStr ''2026-01-01T10:05:00'')"
    by blast
  then have "snd (AutoFixState_save format_int ''2026-01-01T10:05:00'' example_autofix [''gh''] ?fs)
          [''gh'', ''issues'', ''index.json''] = Some (Json (PDict idx')) \<and>
     filter (\<lambda>kv. fst kv \<noteq> ''auto_fix_queue'' \<and> fst kv \<noteq> ''last_updated'') idx'
       = [(''triaged'', PList [PInt 5]), (''notes'', PStr ''keep'')] \<and>
     map_of idx' ''last_updated'' = Some (PStr ''2026-01-01T10:05:00'')"
    by (simp add: issues_index_file_def)
  with ok show ?thesis by blast
qed

text \<open>
  Claim C3. Both \<^verbatim>\<open>_update_index\<close> methods upsert the entry of the saved record into the
  entry list of the index. On a list whose entries all carry the identifier key, the upsert
  returns the list with the entry of that identifier replaced where it stands, and with the new
  entry appended when no entry has the identifier: the list keeps its length and every other
  entry its position, and when exactly one entry has the identifier the result is the list
  updated at that index. (Were several entries to have it, each would be replaced.)

  The entry of a review holds its \<^verbatim>\<open>pr_number\<close>, \<^verbatim>\<open>repo\<close>, \<^verbatim>\<open>overall_status\<close>, the number of
  its findings and \<^verbatim>\<open>reviewed_at\<close>; the entry of an auto-fix state holds its \<^verbatim>\<open>issue_number\<close>,
  \<^verbatim>\<open>repo\<close>, the value of its \<^verbatim>\<open>status\<close>, \<^verbatim>\<open>spec_id\<close>, \<^verbatim>\<open>pr_number\<close> and \<^verbatim>\<open>updated_at\<close>.
  \<^verbatim>\<open>PRReviewResult.save\<close> and \<^verbatim>\<open>AutoFixState.save\<close> write the record file and then the index:
  an index that exists has its list so upserted (a list that is absent from it counts as empty)
  and \<^verbatim>\<open>last_updated\<close> stamped; with no index file, the index written is the skeleton with the
  one entry.

  In particular, from a directory with no index, saving reviews of pull requests 1 and 2 and
  then another review of pull request 1 raises nothing and leaves an index of exactly two
  entries, the entry of the last review of pull request 1 first, that of pull request 2 second.
  The same holds of auto-fix states: saving states of two distinct issues and then another
  state of the first leaves a queue of exactly two entries, the entry of the last state of the
  first issue before that of the second.
\<close>

theorem C3_index_upsert:
  "(list_all (has_ident key) rs \<longrightarrow>
      upsert key ident entry (PList rs) = Inr (PList (replace_or_append key ident entry rs))) \<and>
   (\<not> list_ex (entry_matches key ident) rs \<longrightarrow>
      replace_or_append key ident entry rs = rs @ [entry]) \<and>
   (list_ex (entry_matches key ident) rs \<longrightarrow>
      length (replace_or_append key ident entry rs) = length rs) \<and>
   (list_ex (entry_matches key ident) rs \<and> j < length rs \<longrightarrow>
      replace_or_append key ident entry rs ! j
        = (if entry_matches key ident (rs ! j) then entry else rs ! j)) \<and>
   (i < length rs \<and> entry_matches key ident (rs ! i) \<and>
    (\<forall>j<length rs. j \<noteq> i \<longrightarrow> \<not> entry_matches key ident (rs ! j)) \<longrightarrow>
      replace_or_append key ident entry rs = rs[i := entry]) \<and>
   (PRReviewResult_index_entry r =
      PDict [(''pr_number'', rev_pr_number r), (''repo'', rev_repo r),
             (''overall_status'', rev_overall_status r),
             (''findings_count'', PInt (int (length (rev_findings r)))),
             (''reviewed_at'', rev_reviewed_at r)]) \<and>
   (AutoFixState_index_entry a =
      PDict [(''issue_number'', afs_issue_number a), (''repo'', afs_repo a),
             (''status'', PStr (AutoFixStatus_value (afs_status a))), (''spec_id'', afs_spec_id a),
             (''pr_number'', afs_pr_number a), (''updated_at'', afs_updated_at a)]) \<and>
   (fs (pr_index_file dir) = Some (Json (PDict idx)) \<and> map_of idx ''reviews'' = Some (PList rs) \<and>
    list_all (has_ident ''pr_number'') rs \<longrightarrow>
      PRReviewResult_save fmt now r dir fs =
        (None, fs(review_file fmt dir (rev_pr_number r) \<mapsto> Json (PRReviewResult_to_dict r),
                  pr_index_file dir \<mapsto> Json (PDict (dict_set (dict_set idx ''reviews''
           (PList (replace_or_append ''pr_number'' (rev_pr_number r) (PRReviewResult_index_entry r) rs)))
           ''last_updated'' (PStr now)))))) \<and>
   (fs (issues_index_file dir) = Some (Json (PDict idx)) \<and>
    map_of idx ''auto_fix_queue'' = Some (PList rs) \<and> list_all (has_ident ''issue_number'') rs \<longrightarrow>
      AutoFixState_save fmt now a dir fs =
        (None, fs(autofix_file fmt dir (afs_issue_number a) \<mapsto> Json (AutoFixState_to_dict a),
                  issues_index_file dir \<mapsto> Json (PDict (dict_set (dict_set idx ''auto_fix_queue''
           (PList (replace_or_append ''issue_number'' (afs_issue_number a) (AutoFixState_index_entry a) rs)))
           ''last_updated'' (PStr now)))))) \<and>
   (fs (pr_index_file dir) = Some (Json (PDict idx)) \<and> map_of idx ''reviews'' = None \<longrightarrow>
      PRReviewResult_save fmt now r dir fs =
        (None, fs(review_file fmt dir (rev_pr_number r) \<mapsto> Json (PRReviewResult_to_dict r),
                  pr_index_file dir \<mapsto> Json (PDict (dict_set (dict_set idx ''reviews''
                     (PList [PRReviewResult_index_entry r])) ''last_updated'' (PStr now)))))) \<and>
   (fs (issues_index_file dir) = Some (Json (PDict idx)) \<and> map_of idx ''auto_fix_queue'' = None \<longrightarrow>
      AutoFixState_save fmt now a dir fs =
        (None, fs(autofix_file fmt dir (afs_issue_number a) \<mapsto> Json (AutoFixState_to_dict a),
                  issues_index_file dir \<mapsto> Json (PDict (dict_set (dict_set idx ''auto_fix_queue''
                     (PList [AutoFixState_index_entry a])) ''last_updated'' (PStr now)))))) \<and>
   (fs (pr_index_file dir) = None \<longrightarrow>
      PRReviewResult_save fmt now r dir fs =
        (None, fs(review_file fmt dir (rev_pr_number r) \<mapsto> Json (PRReviewResult_to_dict r),
                  pr_index_file dir \<mapsto> Json (PDict [(''reviews'', PList [PRReviewResult_index_entry r]),
                                                      (''last_updated'', PStr now)])))) \<and>
   (fs (issues_index_file dir) = None \<longrightarrow>
      AutoFixState_save fmt now a dir fs =
        (None, fs(autofix_file fmt dir (afs_issue_number a) \<mapsto> Json (AutoFixState_to_dict a),
                  issues_index_file dir \<mapsto> Json (PDict [(''triaged'', PList []),
                     (''auto_fix_queue'', PList [AutoFixState_index_entry a]),
                     (''last_updated'', PStr now)])))) \<and>
   (fs (pr_index_file dir) = None \<and> rev_pr_number r1 = PInt 1 \<and> rev_pr_number r2 = PInt 2 \<and>
    rev_pr_number r3 = PInt 1 \<longrightarrow>
      fst (PRReviewResult_save fmt t1 r1 dir fs) = None \<and>
      fst (PRReviewResult_save fmt t2 r2 dir (snd (PRReviewResult_save fmt t1 r1 dir fs))) = None \<and>
      fst (PRReviewResult_save fmt t3 r3 dir
             (snd (PRReviewResult_save fmt t2 r2 dir (snd (PRReviewResult_save fmt t1 r1 dir fs))))) = None \<and>
      snd (PRReviewResult_save fmt t3 r3 dir
             (snd (PRReviewResult_save fmt t2 r2 dir (snd (PRReviewResult_save fmt t1 r1 dir fs)))))
          (pr_index_file dir)
        = Some (Json (PDict [(''reviews'', PList [PRReviewResult_index_entry r3, PRReviewResult_index_entry r2]),
                             (''last_updated'', PStr t3)])) \<and>
      py_getitem (PRReviewResult_index_entry r3) ''overall_status'' = Inr (rev_overall_status r3)) \<and>
   (fs (issues_index_file dir) = None \<and> afs_issue_number a1 = PInt m \<and> afs_issue_number a2 = PInt n \<and>
    afs_issue_number a3 = PInt m \<and> m \<noteq> n \<longrightarrow>
      fst (AutoFixState_save fmt t1 a1 dir fs) = None \<and>
      fst (AutoFixState_save fmt t2 a2 dir (snd (AutoFixState_save fmt t1 a1 dir fs))) = None \<and>
      fst (AutoFixState_save fmt t3 a3 dir
             (snd (AutoFixState_save fmt t2 a2 dir (snd (AutoFixState_save fmt t1 a1 dir fs))))) = None \<and>
      snd (AutoFixState_save fmt t3 a3 dir
             (snd (AutoFixState_save fmt t2 a2 dir (snd (AutoFixState_save fmt t1 a1 dir fs)))))
          (issues_index_file dir)
        = Some (Json (PDict [(''triaged'', PList []),
                             (''auto_fix_queue'', PList [AutoFixState_index_entry a3, AutoFixState_index_entry a2]),
                             (''last_updated'', PStr t3)])) \<and>
      py_getitem (AutoFixState_index_entry a3) ''status'' = Inr (PStr (AutoFixStatus_value (afs_status a3))))"
proof -
  have c1: "list_all (has_ident key) rs \<longrightarrow>
      upsert key ident entry (PList rs) = Inr (PList (replace_or_append key ident entry rs))"
    by (rule impI) (rule upsert_replace_or_append)
  have c2: "\<not> list_ex (entry_matches key ident) rs \<longrightarrow>
      replace_or_append key ident entry rs = rs @ [entry]"
    by (rule impI) (rule replace_or_append_absent)
  have c3: "list_ex (entry_matches key ident) rs \<longrightarrow>
      length (replace_or_append key ident entry rs) = length rs"
    by (rule impI) (rule replace_or_append_length)
  have c4: "list_ex (entry_matches key ident) rs \<and> j < length rs \<longrightarrow>
      replace_or_append key ident entry rs ! j
        = (if entry_matches key ident (rs ! j) then entry else rs ! j)"
    by (intro impI, elim conjE) (rule replace_or_append_nth)
  have c5: "i < length rs \<and> entry_matches key ident (rs ! i) \<and>
    (\<forall>j<length rs. j \<noteq> i \<longrightarrow> \<not> entry_matches key ident (rs ! j)) \<longrightarrow>
      replace_or_append key ident entry rs = rs[i := entry]"
    by (intro impI, elim conjE) (rule replace_or_append_unique)
  have c6: "PRReviewResult_index_entry r =
      PDict [(''pr_number'', rev_pr_number r), (''repo'', rev_repo r),
             (''overall_status'', rev_overall_status r),
             (''findings_count'', PInt (int (length (rev_findings r)))),
             (''reviewed_at'', rev_reviewed_at r)]"
    by (simp add: PRReviewResult_index_entry_def)
  have c7: "AutoFixState_index_entry a =
      PDict [(''issue_number'', afs_issue_number a), (''repo'', afs_repo a),
             (''status'', PStr (AutoFixStatus_value (afs_status a))), (''spec_id'', afs_spec_id a),
             (''pr_number'', afs_pr_number a), (''updated_at'', afs_updated_at a)]"
    by (simp add: AutoFixState_index_entry_def)
  have c8: "fs (pr_index_file dir) = Some (Json (PDict idx)) \<and> map_of idx ''reviews'' = Some (PList rs) \<and>
    list_all (has_ident ''pr_number'') rs \<longrightarrow>
      PRReviewResult_save fmt now r dir fs =
        (None, fs(review_file fmt dir (rev_pr_number r) \<mapsto> Json (PRReviewResult_to_dict r),
                  pr_index_file dir \<mapsto> Json (PDict (dict_set (dict_set idx ''reviews''
           (PList (replace_or_append ''pr_number'' (rev_pr_number r) (PRReviewResult_index_entry r) rs)))
           ''last_updated'' (PStr now)))))"
    by (intro impI, elim conjE) (rule review_save_existing)
  have c9: "fs (issues_index_file dir) = Some (Json (PDict idx)) \<and>
    map_of idx ''auto_fix_queue'' = Some (PList rs) \<and> list_all (has_ident ''issue_number'') rs \<longrightarrow>
      AutoFixState_save fmt now a dir fs =
        (None, fs(autofix_file fmt dir (afs_issue_number a) \<mapsto> Json (AutoFixState_to_dict a),
                  issues_index_file dir \<mapsto> Json (PDict (dict_set (dict_set idx ''auto_fix_queue''
           (PList (replace_or_append ''issue_number'' (afs_issue_number a) (AutoFixState_index_entry a) rs)))
           ''last_updated'' (PStr now)))))"
    by (intro impI, elim conjE) (rule autofix_save_existing)
  have c10: "fs (pr_index_file dir) = Some (Json (PDict idx)) \<and> map_of idx ''reviews'' = None \<longrightarrow>
      PRReviewResult_save fmt now r dir fs =
        (None, fs(review_file fmt dir (rev_pr_number r) \<mapsto> Json (PRReviewResult_to_dict r),
                  pr_index_file dir \<mapsto> Json (PDict (dict_set (dict_set idx ''reviews''
                     (PList [PRReviewResult_index_entry r])) ''last_updated'' (PStr now)))))"
    by (intro impI, elim conjE) (rule review_save_no_list)
  have c11: "fs (issues_index_file dir) = Some (Json (PDict idx)) \<and> map_of idx ''auto_fix_queue'' = None \<longrightarrow>
      AutoFixState_save fmt now a dir fs =
        (None, fs(autofix_file fmt dir (afs_issue_number a) \<mapsto> Json (AutoFixState_to_dict a),
                  issues_index_file dir \<mapsto> Json (PDict (dict_set (dict_set idx ''auto_fix_queue''
                     (PList [AutoFixState_index_entry a])) ''last_updated'' (PStr now)))))"
    by (intro impI, elim conjE) (rule autofix_save_no_list)
  have c12: "fs (pr_index_file dir) = None \<longrightarrow>
      PRReviewResult_save fmt now r dir fs =
        (None, fs(review_file fmt dir (rev_pr_number r) \<mapsto> Json (PRReviewResult_to_dict r),
                  pr_index_file dir \<mapsto> Json (PDict [(''reviews'', PList [PRReviewResult_index_entry r]),
                                                      (''last_updated'', PStr now)])))"
    by (rule impI) (rule review_save_fresh)
  have c13: "fs (issues_index_file dir) = None \<longrightarrow>
      AutoFixState_save fmt now a dir fs =
        (None, fs(autofix_file fmt dir (afs_issue_number a) \<mapsto> Json (AutoFixState_to_dict a),
                  issues_index_file dir \<mapsto> Json (PDict [(''triaged'', PList []),
                     (''auto_fix_queue'', PList [AutoFixState_index_entry a]),
                     (''last_updated'', PStr now)])))"
    by (rule impI) (rule autofix_save_fresh)
  have c14: "fs (pr_index_file dir) = None \<and> rev_pr_number r1 = PInt 1 \<and> rev_pr_number r2 = PInt 2 \<and>
    rev_pr_number r3 = PInt 1 \<longrightarrow>
      fst (PRReviewResult_save fmt t1 r1 dir fs) = None \<and>
      fst (PRReviewResult_save fmt t2 r2 dir (snd (PRReviewResult_save fmt t1 r1 dir fs))) = None \<and>
      fst (PRReviewResult_save fmt t3 r3 dir
             (snd (PRReviewResult_save fmt t2 r2 dir (snd (PRReviewResult_save fmt t1 r1 dir fs))))) = None \<and>
      snd (PRReviewResult_save fmt t3 r3 dir
             (snd (PRReviewResult_save fmt t2 r2 dir (snd (PRReviewResult_save fmt t1 r1 dir fs)))))
          (pr_index_file dir)
        = Some (Json (PDict [(''reviews'', PList [PRReviewResult_index_entry r3, PRReviewResult_index_entry r2]),
                             (''last_updated'', PStr t3)])) \<and>
      py_getitem (PRReviewResult_index_entry r3) ''overall_status'' = Inr (rev_overall_status r3)"
    proof (intro impI, elim conjE, intro conjI)
    assume h: "fs (pr_index_file dir) = None" "rev_pr_number r1 = PInt 1" "rev_pr_number r2 = PInt 2"
      "rev_pr_number r3 = PInt 1"
    show "fst (PRReviewResult_save fmt t1 r1 dir fs) = None"
      using h by (rule review_save_sequence(1))
    show "fst (PRReviewResult_save fmt t2 r2 dir (snd (PRReviewResult_save fmt t1 r1 dir fs))) = None"
      using h by (rule review_save_sequence(2))
    show "fst (PRReviewResult_save fmt t3 r3 dir
             (snd (PRReviewResult_save fmt t2 r2 dir (snd (PRReviewResult_save fmt t1 r1 dir fs))))) = None"
      using h by (rule review_save_sequence(3))
    show "snd (PRReviewResult_save fmt t3 r3 dir
             (snd (PRReviewResult_save fmt t2 r2 dir (snd (PRReviewResult_save fmt t1 r1 dir fs)))))
          (pr_index_file dir)
        = Some (Json (PDict [(''reviews'', PList [PRReviewResult_index_entry r3, PRReviewResult_index_entry r2]),
                             (''last_updated'', PStr t3)]))"
      using h by (rule review_save_sequence(4))
    show "py_getitem (PRReviewResult_index_entry r3) ''overall_status'' = Inr (rev_overall_status r3)"
      by (simp add: PRReviewResult_index_entry_def)
  qed
  have c15: "fs (issues_index_file dir) = None \<and> afs_issue_number a1 = PInt m \<and> afs_issue_number a2 = PInt n \<and>
    afs_issue_number a3 = PInt m \<and> m \<noteq> n \<longrightarrow>
      fst (AutoFixState_save fmt t1 a1 dir fs) = None \<and>
      fst (AutoFixState_save fmt t2 a2 dir (snd (AutoFixState_save fmt t1 a1 dir fs))) = None \<and>
      fst (AutoFixState_save fmt t3 a3 dir
             (snd (AutoFixState_save fmt t2 a2 dir (snd (AutoFixState_save fmt t1 a1 dir fs))))) = None \<and>
      snd (AutoFixState_save fmt t3 a3 dir
             (snd (AutoFixState_save fmt t2 a2 dir (snd (AutoFixState_save fmt t1 a1 dir fs)))))
          (issues_index_file dir)
        = Some (Json (PDict [(''triaged'', PList []),
                             (''auto_fix_queue'', PList [AutoFixState_index_entry a3, AutoFixState_index_entry a2]),
                             (''last_updated'', PStr t3)])) \<and>
      py_getitem (AutoFixState_index_entry a3) ''status'' = Inr (PStr (AutoFixStatus_value (afs_status a3)))"
    proof (intro impI, elim conjE, intro conjI)
    assume h: "fs (issues_index_file dir) = None" "afs_issue_number a1 = PInt m"
      "afs_issue_number a2 = PInt n" "afs_issue_number a3 = PInt m" "m \<noteq> n"
    show "fst (AutoFixState_save fmt t1 a1 dir fs) = None"
      using h by (rule autofix_save_sequence(1))
    show "fst (AutoFixState_save fmt t2 a2 dir (snd (AutoFixState_save fmt t1 a1 dir fs))) = None"
      using h by (rule autofix_save_sequence(2))
    show "fst (AutoFixState_save fmt t3 a3 dir
             (snd (AutoFixState_save fmt t2 a2 dir (snd (AutoFixState_save fmt t1 a1 dir fs))))) = None"
      using h by (rule autofix_save_sequence(3))
    show "snd (AutoFixState_save fmt t3 a3 dir
             (snd (AutoFixState_save fmt t2 a2 dir (snd (AutoFixState_save fmt t1 a1 dir fs)))))
          (issues_index_file dir)
        = Some (Json (PDict [(''triaged'', PList []),
                             (''auto_fix_queue'', PList [AutoFixState_index_entry a3, AutoFixState_index_entry a2]),
                             (''last_updated'', PStr t3)]))"
      using h by (rule autofix_save_sequence(4))
    show "py_getitem (AutoFixState_index_entry a3) ''status'' = Inr (PStr (AutoFixStatus_value (afs_status a3)))"
      by (simp add: AutoFixState_index_entry_def)
  qed
  show ?thesis
    by (intro conjI c1 c2 c3 c4 c5 c6 c7 c8 c9 c10 c11 c12 c13 c14 c15)
qed

theorem C3_index_upsert_witness:
  "fst (PRReviewResult_save format_int ''2026-01-01T10:00:03'' (example_review 1 ''approve'') [''gh'']
     (snd (PRReviewResult_save format_int ''2026-01-01T10:00:02'' (example_review 2 ''comment'') [''gh'']
       (snd (PRReviewResult_save format_int ''2026-01-01T10:00:01'' (example_review 1 ''comment'') [''gh'']
          Map.empty))))) = None \<and>
   snd (PRReviewResult_save format_int ''2026-01-01T10:00:03'' (example_review 1 ''approve'') [''gh'']
     (snd (PRReviewResult_save format_int ''2026-01-01T10:00:02'' (example_review 2 ''comment'') [''gh'']
       (snd (PRReviewResult_save format_int ''2026-01-01T10:00:01'' (example_review 1 ''comment'') [''gh'']
          Map.empty))))) [''gh'', ''pr'', ''index.json'']
     = Some (Json (PDict
         [(''reviews'', PList
            [PDict [(''pr_number'', PInt 1), (''repo'', PStr ''o/r''), (''overall_status'', PStr ''approve''),
                    (''findings_count'', PInt 1), (''reviewed_at'', PStr ''2026-01-01T10:00:00'')],
             PDict [(''pr_number'', PInt 2), (''repo'', PStr ''o/r''), (''overall_status'', PStr ''comment''),
                    (''findings_count'', PInt 1), (''reviewed_at'', PStr ''2026-01-01T10:00:00'')]]),
          (''last_updated'', PStr ''2026-01-01T10:00:03'')])) \<and>
   fst (AutoFixState_save format_int ''2026-01-01T10:00:03'' (example_autofix_of 1 BUILDING) [''gh'']
     (snd (AutoFixState_save format_int ''2026-01-01T10:00:02'' (example_autofix_of 2 PENDING) [''gh'']
       (snd (AutoFixState_save format_int ''2026-01-01T10:00:01'' (example_autofix_of 1 PENDING) [''gh'']
          Map.empty))))) = None \<and>
   snd (AutoFixState_save format_int ''2026-01-01T10:00:03'' (example_autofix_of 1 BUILDING) [''gh'']
     (snd (AutoFixState_save format_int ''2026-01-01T10:00:02'' (example_autofix_of 2 PENDING) [''gh'']
       (snd (AutoFixState_save format_int ''2026-01-01T10:00:01'' (example_autofix_of 1 PENDING) [''gh'']
          Map.empty))))) [''gh'', ''issues'', ''index.json'']
     = Some (Json (PDict
         [(''triaged'', PList []),
          (''auto_fix_queue'', PList
            [PDict [(''issue_number'', PInt 1), (''repo'', PStr ''o/r''), (''status'', PStr ''building''),
                    (''spec_id'', PNone), (''pr_number'', PNone),
                    (''updated_at'', PStr ''2026-01-01T10:00:00'')],
             PDict [(''issue_number'', PInt 2), (''repo'', PStr ''o/r''), (''status'', PStr ''pending''),
                    (''spec_id'', PNone), (''pr_number'', PNone),
                    (''updated_at'', PStr ''2026-01-01T10:00:00'')]]),
          (''last_updated'', PStr ''2026-01-01T10:00:03'')])) \<and>
   AutoFixState_save format_int ''2026-01-01T10:00:04'' (example_autofix_of 42 BUILDING) [''gh'']
     (Map.empty([''gh'', ''issues'', ''index.json''] \<mapsto> Json (PDict
         [(''triaged'', PList [PInt 9]),
          (''auto_fix_queue'', PList
            [PDict [(''issue_number'', PInt 5)],
             PDict [(''issue_number'', PInt 42), (''status'', PStr ''pending'')],
             PDict [(''issue_number'', PInt 7)]]),
          (''last_updated'', PStr ''2025-12-31T00:00:00'')])))
     = (None,
        (Map.empty([''gh'', ''issues'', ''index.json''] \<mapsto> Json (PDict
         [(''triaged'', PList [PInt 9]),
          (''auto_fix_queue'', PList
            [PDict [(''issue_number'', PInt 5)],
             PDict [(''issue_number'', PInt 42), (''status'', PStr ''pending'')],
             PDict [(''issue_number'', PInt 7)]]),
          (''last_updated'', PStr ''2025-12-31T00:00:00'')])))
        ([''gh'', ''issues'', ''autofix_42.json''] \<mapsto> Json (AutoFixState_to_dict (example_autofix_of 42 BUILDING)),
         [''gh'', ''issues'', ''index.json''] \<mapsto> Json (PDict
         [(''triaged'', PList [PInt 9]),
          (''auto_fix_queue'', PList
            [PDict [(''issue_number'', PInt 5)],
             PDict [(''issue_number'', PInt 42), (''repo'', PStr ''o/r''), (''status'', PStr ''building''),
                    (''spec_id'', PNone), (''pr_number'', PNone),
                    (''updated_at'', PStr ''2026-01-01T10:00:00'')],
             PDict [(''issue_number'', PInt 7)]]),
          (''last_updated'', PStr ''2026-01-01T10:00:04'')])))"
proof -
  have pr: "fst (PRReviewResult_save format_int ''2026-01-01T10:00:03'' (example_review 1 ''approve'') [''gh'']
     (snd (PRReviewResult_save format_int ''2026-01-01T10:00:02'' (example_review 2 ''comment'') [''gh'']
       (snd (PRReviewResult_save format_int ''2026-01-01T10:00:01'' (example_review 1 ''comment'') [''gh'']
          Map.empty))))) = None \<and>
   snd (PRReviewResult_save format_int ''2026-01-01T10:00:03'' (example_review 1 ''approve'') [''gh'']
     (snd (PRReviewResult_save format_int ''2026-01-01T10:00:02'' (example_review 2 ''comment'') [''gh'']
       (snd (PRReviewResult_save format_int ''2026-01-01T10:00:01'' (example_review 1 ''comment'') [''gh'']
          Map.empty))))) [''gh'', ''pr'', ''index.json'']
     = Some (Json (PDict
         [(''reviews'', PList
            [PDict [(''pr_number'', PInt 1), (''repo'', PStr ''o/r''), (''overall_status'', PStr ''approve''),
                    (''findings_count'', PInt 1), (''reviewed_at'', PStr ''2026-01-01T10:00:00'')],
             PDict [(''pr_number'', PInt 2), (''repo'', PStr ''o/r''), (''overall_status'', PStr ''comment''),
                    (''findings_count'', PInt 1), (''reviewed_at'', PStr ''2026-01-01T10:00:00'')]]),
          (''last_updated'', PStr ''2026-01-01T10:00:03'')]))"
    using C3_index_upsert [where fs = Map.empty and dir = "[''gh'']" and fmt = format_int
      and ?r1.0 = "example_review 1 ''comment''" and ?r2.0 = "example_review 2 ''comment''"
      and ?r3.0 = "example_review 1 ''approve''"
      and ?t1.0 = "''2026-01-01T10:00:01''" and ?t2.0 = "''2026-01-01T10:00:02''"
      and ?t3.0 = "''2026-01-01T10:00:03''",
      THEN conjunct2, THEN conjunct2, THEN conjunct2, THEN conjunct2, THEN conjunct2, THEN conjunct2, THEN conjunct2, THEN conjunct2, THEN conjunct2, THEN conjunct2, THEN conjunct2, THEN conjunct2, THEN conjunct2, THEN conjunct1]
    by (simp add: example_review_def pr_index_file_def PRReviewResult_index_entry_def)
  have af: "fst (AutoFixState_save format_int ''2026-01-01T10:00:03'' (example_autofix_of 1 BUILDING) [''gh'']
     (snd (AutoFixState_save format_int ''2026-01-01T10:00:02'' (example_autofix_of 2 PENDING) [''gh'']
       (snd (AutoFixState_save format_int ''2026-01-01T10:00:01'' (example_autofix_of 1 PENDING) [''gh'']
          Map.empty))))) = None \<and>
   snd (AutoFixState_save format_int ''2026-01-01T10:00:03'' (example_autofix_of 1 BUILDING) [''gh'']
     (snd (AutoFixState_save format_int ''2026-01-01T10:00:02'' (example_autofix_of 2 PENDING) [''gh'']
       (snd (AutoFixState_save format_int ''2026-01-01T10:00:01'' (example_autofix_of 1 PENDING) [''gh'']
          Map.empty))))) [''gh'', ''issues'', ''index.json'']
     = Some (Json (PDict
         [(''triaged'', PList []),
          (''auto_fix_queue'', PList
            [PDict [(''issue_number'', PInt 1), (''repo'', PStr ''o/r''), (''status'', PStr ''building''),
                    (''spec_id'', PNone), (''pr_number'', PNone),
                    (''updated_at'', PStr ''2026-01-01T10:00:00'')],
             PDict [(''issue_number'', PInt 2), (''repo'', PStr ''o/r''), (''status'', PStr ''pending''),
                    (''spec_id'', PNone), (''pr_number'', PNone),
                    (''updated_at'', PStr ''2026-01-01T10:00:00'')]]),
          (''last_updated'', PStr ''2026-01-01T10:00:03'')]))"
    using C3_index_upsert [where fs = Map.empty and dir = "[''gh'']" and fmt = format_int
      and ?a1.0 = "example_autofix_of 1 PENDING" and ?a2.0 = "example_autofix_of 2 PENDING"
      and ?a3.0 = "example_autofix_of 1 BUILDING" and m = 1 and n = 2
      and ?t1.0 = "''2026-01-01T10:00:01''" and ?t2.0 = "''2026-01-01T10:00:02''"
      and ?t3.0 = "''2026-01-01T10:00:03''",
      THEN conjunct2, THEN conjunct2, THEN conjunct2, THEN conjunct2, THEN conjunct2, THEN conjunct2, THEN conjunct2, THEN conjunct2, THEN conjunct2, THEN conjunct2, THEN conjunct2, THEN conjunct2, THEN conjunct2, THEN conjunct2]
    by (simp add: example_autofix_of_def example_autofix_def issues_index_file_def
        AutoFixState_index_entry_def)
  have ex: "AutoFixState_save format_int ''2026-01-01T10:00:04'' (example_autofix_of 42 BUILDING) [''gh'']
     (Map.empty([''gh'', ''issues'', ''index.json''] \<mapsto> Json (PDict
         [(''triaged'', PList [PInt 9]),
          (''auto_fix_queue'', PList
            [PDict [(''issue_number'', PInt 5)],
             PDict [(''issue_number'', PInt 42), (''status'', PStr ''pending'')],
             PDict [(''issue_number'', PInt 7)]]),
          (''last_updated'', PStr ''2025-12-31T00:00:00'')])))
     = (None,
        (Map.empty([''gh'', ''issues'', ''index.json''] \<mapsto> Json (PDict
         [(''triaged'', PList [PInt 9]),
          (''auto_fix_queue'', PList
            [PDict [(''issue_number'', PInt 5)],
             PDict [(''issue_number'', PInt 42), (''status'', PStr ''pending'')],
             PDict [(''issue_number'', PInt 7)]]),
          (''last_updated'', PStr ''2025-12-31T00:00:00'')])))
        ([''gh'', ''issues'', ''autofix_42.json''] \<mapsto> Json (AutoFixState_to_dict (example_autofix_of 42 BUILDING)),
         [''gh'', ''issues'', ''index.json''] \<mapsto> Json (PDict
         [(''triaged'', PList [PInt 9]),
          (''auto_fix_queue'', PList
            [PDict [(''issue_number'', PInt 5)],
             PDict [(''issue_number'', PInt 42), (''repo'', PStr ''o/r''), (''status'', PStr ''building''),
                    (''spec_id'', PNone), (''pr_number'', PNone),
                    (''updated_at'', PStr ''2026-01-01T10:00:00'')],
             PDict [(''issue_number'', PInt 7)]]),
          (''last_updated'', PStr ''2026-01-01T10:00:04'')])))"
    using C3_index_upsert [where dir = "[''gh'']" and fmt = format_int
      and a = "example_autofix_of 42 BUILDING" and now = "''2026-01-01T10:00:04''"
      and fs = "Map.empty([''gh'', ''issues'', ''index.json''] \<mapsto> Json (PDict
         [(''triaged'', PList [PInt 9]),
          (''auto_fix_queue'', PList
            [PDict [(''issue_number'', PInt 5)],
             PDict [(''issue_number'', PInt 42), (''status'', PStr ''pending'')],
             PDict [(''issue_number'', PInt 7)]]),
          (''last_updated'', PStr ''2025-12-31T00:00:00'')]))"
      and idx = "[(''triaged'', PList [PInt 9]),
          (''auto_fix_queue'', PList
            [PDict [(''issue_number'', PInt 5)],
             PDict [(''issue_number'', PInt 42), (''status'', PStr ''pending'')],
             PDict [(''issue_number'', PInt 7)]]),
          (''last_updated'', PStr ''2025-12-31T00:00:00'')]"
      and rs = "[PDict [(''issue_number'', PInt 5)],
             PDict [(''issue_number'', PInt 42), (''status'', PStr ''pending'')],
             PDict [(''issue_number'', PInt 7)]]",
      THEN conjunct2, THEN conjunct2, THEN conjunct2, THEN conjunct2, THEN conjunct2, THEN conjunct2, THEN conjunct2, THEN conjunct2, THEN conjunct1]
    by (simp add: example_autofix_of_def example_autofix_def issues_index_file_def autofix_file_def
        AutoFixState_index_entry_def has_ident_def entry_matches_def replace_or_append_def)
  from pr af ex show ?thesis by (intro conjI) (simp_all only: simp_thms)
qed

end
